theory Spec2Isabelle
  imports Main
begin

section \<open>Strings and the regular expressions of \<^verbatim>\<open>asn1tools/parser.py\<close>\<close>

text \<open>
  A Python \<^verbatim>\<open>str\<close> is modelled as a \<^typ>\<open>string\<close>: one \<^typ>\<open>char\<close> per code point, for
  the code points 0..255. The regular expressions of the source are few and none of them
  needs backtracking into a character class, so each one is written as the function that
  gives the length of the match anchored at the start of its argument (\<open>None\<close>: no match).
\<close>

definition newline :: char where
  "newline = CHR 0x0A"

definition space :: char where
  "space = CHR 0x20"

definition dash :: char where
  "dash = CHR 0x2D"

text \<open>\<^verbatim>\<open>[\s\S]*?(--|\n)\<close>: the lazy star stops at the first place where \<^verbatim>\<open>--\<close> or a
  newline starts; the result counts the characters up to and including that terminator.\<close>

fun comment_body :: "string \<Rightarrow> nat option" where
  "comment_body [] = None"
| "comment_body [c] = (if c = newline then Some 1 else None)"
| "comment_body (c # d # cs) =
     (if c = dash \<and> d = dash then Some 2
      else if c = newline then Some 1
      else map_option Suc (comment_body (d # cs)))"

text \<open>\<^verbatim>\<open>--([\s\S]*?(--|\n))\<close>\<close>

fun re_comment :: "string \<Rightarrow> nat option" where
  "re_comment (c # d # cs) =
     (if c = dash \<and> d = dash then map_option (\<lambda>n. n + 2) (comment_body cs) else None)"
| "re_comment _ = None"

text \<open>\<^verbatim>\<open>[^\n]\<close>\<close>

fun re_not_newline :: "string \<Rightarrow> nat option" where
  "re_not_newline [] = None"
| "re_not_newline (c # cs) = (if c = newline then None else Some 1)"

text \<open>
  \<^verbatim>\<open>re.sub(pattern, repl, string)\<close> with a function \<open>repl\<close> of the matched text: the
  leftmost match is replaced, the scan goes on behind it, and a character at which the
  pattern does not match is copied. An empty match is replaced and the next character
  copied.
\<close>

function re_sub :: "(string \<Rightarrow> nat option) \<Rightarrow> (string \<Rightarrow> string) \<Rightarrow> string \<Rightarrow> string" where
  "re_sub m f [] = (case m [] of Some _ \<Rightarrow> f [] | None \<Rightarrow> [])"
| "re_sub m f (c # cs) =
     (case m (c # cs) of
        None \<Rightarrow> c # re_sub m f cs
      | Some n \<Rightarrow>
          if n = 0 then f [] @ c # re_sub m f cs
          else f (take n (c # cs)) @ re_sub m f (drop n (c # cs)))"
  by pat_completeness auto
termination
  by (relation "measure (\<lambda>(m, f, s). length s)") auto

declare re_sub.simps(2) [simp del]

section \<open>Comment stripping\<close>

text \<open>
  \<^verbatim>\<open>
  def ignore_comments(string):
      re_replace = re.compile(r'[^\n]')
      return re.sub(r"--([\s\S]*?(--|\n))",
                    lambda mo: re_replace.sub(' ', mo.group(0)),
                    string)
  \<close>
\<close>

definition re_replace_sub :: "string \<Rightarrow> string" where
  "re_replace_sub group0 = re_sub re_not_newline (\<lambda>_. [space]) group0"

definition ignore_comments :: "string \<Rightarrow> string" where
  "ignore_comments string = re_sub re_comment re_replace_sub string"

text \<open>
  The specification's wording of a comment, as a marking of the positions of a text: a
  comment runs from \<^verbatim>\<open>--\<close> to the next \<^verbatim>\<open>--\<close> or to the end of the line, whichever comes
  first, and a line ends at a newline character or where the text ends.
  \<open>comment_mask inside cs\<close> marks the positions of \<open>cs\<close> that belong to a comment, reading
  from the left, \<open>inside\<close> telling whether a comment is open where \<open>cs\<close> starts.
\<close>

fun comment_mask :: "bool \<Rightarrow> string \<Rightarrow> bool list" where
  "comment_mask inside [] = []"
| "comment_mask True [c] = [True]"
| "comment_mask True (c # d # cs) =
     (if c = dash \<and> d = dash then True # True # comment_mask False cs
      else if c = newline then True # comment_mask False (d # cs)
      else True # comment_mask True (d # cs))"
| "comment_mask False [c] = [False]"
| "comment_mask False (c # d # cs) =
     (if c = dash \<and> d = dash then True # True # comment_mask True cs
      else False # comment_mask False (d # cs))"

text \<open>
  The comments that have an end in the text: \<open>closes cs\<close> says that a \<^verbatim>\<open>--\<close> or a newline
  character occurs in \<open>cs\<close>, and \<open>closed_comment_mask\<close> is the marking in which a \<^verbatim>\<open>--\<close>
  opens a comment only if the text behind it has such an end. A \<^verbatim>\<open>--\<close> behind which
  neither \<^verbatim>\<open>--\<close> nor a newline follows, that is a comment that runs to the end of the
  text, opens nothing there.
\<close>

fun closes :: "string \<Rightarrow> bool" where
  "closes [] = False"
| "closes [c] = (c = newline)"
| "closes (c # d # cs) = (c = newline \<or> (c = dash \<and> d = dash) \<or> closes (d # cs))"

fun closed_comment_mask :: "bool \<Rightarrow> string \<Rightarrow> bool list" where
  "closed_comment_mask inside [] = []"
| "closed_comment_mask True [c] = [True]"
| "closed_comment_mask True (c # d # cs) =
     (if c = dash \<and> d = dash then True # True # closed_comment_mask False cs
      else if c = newline then True # closed_comment_mask False (d # cs)
      else True # closed_comment_mask True (d # cs))"
| "closed_comment_mask False [c] = [False]"
| "closed_comment_mask False (c # d # cs) =
     (if c = dash \<and> d = dash \<and> closes cs then True # True # closed_comment_mask True cs
      else False # closed_comment_mask False (d # cs))"

text \<open>What becomes of a character: in a comment all but a newline is a space.\<close>

definition blank :: "bool \<Rightarrow> char \<Rightarrow> char" where
  "blank in_comment c = (if in_comment \<and> c \<noteq> newline then space else c)"

lemma char_consts_distinct [simp]:
  "newline \<noteq> dash" "dash \<noteq> newline" "newline \<noteq> space" "space \<noteq> newline"
  "dash \<noteq> space" "space \<noteq> dash"
  by (simp_all add: newline_def dash_def space_def)

lemma re_sub_nn_Cons:
  "re_sub re_not_newline f (c # cs) =
     (if c = newline then c # re_sub re_not_newline f cs else f [c] @ re_sub re_not_newline f cs)"
  by (subst re_sub.simps) simp

lemma re_replace_sub_map: "re_replace_sub m = map (blank True) m"
  unfolding re_replace_sub_def
  by (induction m) (simp_all add: re_sub_nn_Cons blank_def)

lemma comment_body_bounds: "comment_body cs = Some n \<Longrightarrow> 0 < n \<and> n \<le> length cs"
  by (induction cs arbitrary: n rule: comment_body.induct) (auto split: if_splits)

lemma closes_iff: "closes cs \<longleftrightarrow> comment_body cs \<noteq> None"
  by (induction cs rule: closes.induct) auto

lemma mask_inside:
  "comment_body cs = Some n \<Longrightarrow>
   closed_comment_mask True cs = replicate n True @ closed_comment_mask False (drop n cs)"
proof (induction cs arbitrary: n rule: comment_body.induct)
  case 1 then show ?case by simp
next
  case (2 c) then show ?case by (auto split: if_splits)
next
  case (3 c d cs)
  show ?case
  proof (cases "c = dash \<and> d = dash")
    case True
    with 3(2) have "n = 2" by simp
    with True show ?thesis by (simp add: numeral_2_eq_2)
  next
    case False
    note F = this
    show ?thesis
    proof (cases "c = newline")
      case True
      with F 3(2) have "n = 1" by simp
      with F True show ?thesis by simp
    next
      case False
      with F 3(2) obtain k where k: "comment_body (d # cs) = Some k" and n: "n = Suc k"
        by auto
      from 3(1)[OF F False k] F False n show ?thesis by auto
    qed
  qed
qed

lemma re_sub_comment_None:
  "re_comment (c # cs) = None \<Longrightarrow> re_sub re_comment f (c # cs) = c # re_sub re_comment f cs"
  by (subst re_sub.simps) simp

lemma re_sub_comment_Some:
  assumes "re_comment s = Some n"
  shows "re_sub re_comment f s = f (take n s) @ re_sub re_comment f (drop n s)"
proof -
  from assms obtain c cs where s: "s = c # cs" by (cases s) auto
  from assms have "n \<noteq> 0" by (cases s rule: re_comment.cases) (auto split: if_splits)
  with assms s show ?thesis by (simp add: re_sub.simps(2))
qed

lemma ignore_comments_mask:
  "ignore_comments s = map2 blank (closed_comment_mask False s) s"
proof (induction s rule: length_induct)
  case (1 s)
  show ?case
  proof (cases "re_comment s")
    case None
    show ?thesis
    proof (cases s)
      case Nil
      then show ?thesis by (simp add: ignore_comments_def)
    next
      case (Cons c cs)
      have ih: "ignore_comments cs = map2 blank (closed_comment_mask False cs) cs"
        using 1 Cons by simp
      have nomark: "closed_comment_mask False (c # cs) = False # closed_comment_mask False cs"
      proof (cases cs)
        case Nil then show ?thesis by simp
      next
        case (Cons d ds)
        with None \<open>s = c # cs\<close> show ?thesis
          by (auto simp: closes_iff)
      qed
      have "ignore_comments s = c # ignore_comments cs"
        using None Cons by (simp add: ignore_comments_def re_sub_comment_None)
      with ih nomark Cons show ?thesis
        by (simp add: blank_def)
    qed
  next
    case (Some n)
    then obtain ds k where s: "s = dash # dash # ds" and k: "comment_body ds = Some k"
      and n: "n = k + 2"
      by (cases s rule: re_comment.cases) (auto split: if_splits)
    from comment_body_bounds[OF k] have kb: "0 < k" "k \<le> length ds" by simp_all
    have ih: "ignore_comments (drop k ds) = map2 blank (closed_comment_mask False (drop k ds)) (drop k ds)"
      using 1 s kb by simp
    have m: "closed_comment_mask False s = True # True # replicate k True @ closed_comment_mask False (drop k ds)"
      using s k mask_inside[OF k] by (simp add: closes_iff)
    have tk: "take n s = dash # dash # take k ds" and dr: "drop n s = drop k ds"
      using s n by simp_all
    have lhs: "ignore_comments s = map (blank True) (dash # dash # take k ds) @ ignore_comments (drop k ds)"
      using re_sub_comment_Some[OF Some, of re_replace_sub] tk dr
      by (simp add: ignore_comments_def re_replace_sub_map)
    have z: "zip (replicate k True) (take k ds) = map (Pair True) (take k ds)"
      using kb by (simp add: zip_replicate1 min_def)
    have za: "zip (replicate k True @ closed_comment_mask False (drop k ds)) ds
              = zip (replicate k True) (take k ds) @ zip (closed_comment_mask False (drop k ds)) (drop k ds)"
      using zip_append[of "replicate k True" "take k ds" "closed_comment_mask False (drop k ds)" "drop k ds"] kb
      by simp
    have "map2 blank (closed_comment_mask False s) s
          = map2 blank (True # True # replicate k True @ closed_comment_mask False (drop k ds)) s"
      by (simp only: m)
    also have "\<dots> = blank True dash # blank True dash #
                  map (blank True) (take k ds)
                    @ map2 blank (closed_comment_mask False (drop k ds)) (drop k ds)"
      by (simp add: s za z)
    finally have
      "map2 blank (closed_comment_mask False s) s
          = blank True dash # blank True dash #
                  map (blank True) (take k ds)
                    @ map2 blank (closed_comment_mask False (drop k ds)) (drop k ds)" .
    then show ?thesis using lhs ih by simp
  qed
qed


lemma closes_tail: "closes (c # cs) \<Longrightarrow> c = newline \<or> (\<exists>cs'. cs = dash # cs' \<and> c = dash) \<or> closes cs"
  by (cases cs) auto









text \<open>
  Against the claim as it stands: the comment of \<^verbatim>\<open>A ::= INTEGER -- last comment\<close> runs
  to the end of its line, which is the end of the text. The specification's marking has
  its sixteen characters in a comment, and blanking them leaves \<^verbatim>\<open>A ::= INTEGER\<close> and
  spaces; \<open>ignore_comments\<close> returns the text as it is.
\<close>

theorem ignore_comments_preserves_positions_counterexample:
  "ignore_comments ''A ::= INTEGER -- last comment'' = ''A ::= INTEGER -- last comment''
   \<and> map2 blank (comment_mask False ''A ::= INTEGER -- last comment'')
        ''A ::= INTEGER -- last comment''
      = ''A ::= INTEGER                ''
   \<and> ignore_comments ''A ::= INTEGER -- last comment''
      \<noteq> map2 blank (comment_mask False ''A ::= INTEGER -- last comment'')
           ''A ::= INTEGER -- last comment''"
  by (simp add: ignore_comments_mask blank_def newline_def dash_def space_def)

section \<open>Character classes and Python values\<close>

text \<open>
  \<^verbatim>\<open>\s\<close> of a \<^verbatim>\<open>str\<close> pattern is Unicode white space; below code point 256 that is
  9..13, 28..32, 0x85 and 0xA0. \<^verbatim>\<open>\d\<close> is a decimal digit, below 256 only \<^verbatim>\<open>0\<close>..\<^verbatim>\<open>9\<close>.
\<close>

definition is_space :: "char \<Rightarrow> bool" where
  "is_space c \<longleftrightarrow> c \<in> set [CHR 0x09, CHR 0x0A, CHR 0x0B, CHR 0x0C, CHR 0x0D,
      CHR 0x1C, CHR 0x1D, CHR 0x1E, CHR 0x1F, CHR 0x20, CHR 0x85, CHR 0xA0]"

definition is_digit :: "char \<Rightarrow> bool" where
  "is_digit c \<longleftrightarrow> c \<in> set ''0123456789''"

definition is_upper :: "char \<Rightarrow> bool" where
  "is_upper c \<longleftrightarrow> c \<in> set ''ABCDEFGHIJKLMNOPQRSTUVWXYZ''"

definition is_lower :: "char \<Rightarrow> bool" where
  "is_lower c \<longleftrightarrow> c \<in> set ''abcdefghijklmnopqrstuvwxyz''"

definition quote :: char where
  "quote = CHR 0x27"

text \<open>\<^verbatim>\<open>str.lower()\<close>, for the code points below 256: the ASCII capitals and the Latin-1
  capitals 0xC0..0xDE without the multiplication sign 0xD7.\<close>

definition upper_chars :: string where
  "upper_chars = ''ABCDEFGHIJKLMNOPQRSTUVWXYZ'' @
     [CHR 0xC0, CHR 0xC1, CHR 0xC2, CHR 0xC3, CHR 0xC4, CHR 0xC5, CHR 0xC6, CHR 0xC7,
      CHR 0xC8, CHR 0xC9, CHR 0xCA, CHR 0xCB, CHR 0xCC, CHR 0xCD, CHR 0xCE, CHR 0xCF,
      CHR 0xD0, CHR 0xD1, CHR 0xD2, CHR 0xD3, CHR 0xD4, CHR 0xD5, CHR 0xD6, CHR 0xD8,
      CHR 0xD9, CHR 0xDA, CHR 0xDB, CHR 0xDC, CHR 0xDD, CHR 0xDE]"

definition lower_chars :: string where
  "lower_chars = ''abcdefghijklmnopqrstuvwxyz'' @
     [CHR 0xE0, CHR 0xE1, CHR 0xE2, CHR 0xE3, CHR 0xE4, CHR 0xE5, CHR 0xE6, CHR 0xE7,
      CHR 0xE8, CHR 0xE9, CHR 0xEA, CHR 0xEB, CHR 0xEC, CHR 0xED, CHR 0xEE, CHR 0xEF,
      CHR 0xF0, CHR 0xF1, CHR 0xF2, CHR 0xF3, CHR 0xF4, CHR 0xF5, CHR 0xF6, CHR 0xF8,
      CHR 0xF9, CHR 0xFA, CHR 0xFB, CHR 0xFC, CHR 0xFD, CHR 0xFE]"

definition py_lower_char :: "char \<Rightarrow> char" where
  "py_lower_char c = (case map_of (zip upper_chars lower_chars) c of Some d \<Rightarrow> d | None \<Rightarrow> c)"

definition py_lower :: "string \<Rightarrow> string" where
  "py_lower s = map py_lower_char s"

text \<open>
  The Python values the parse actions handle. A \<^verbatim>\<open>ParseResults\<close> of pyparsing is not a
  \<^verbatim>\<open>list\<close> (\<^verbatim>\<open>isinstance(x, list)\<close> is false for it, and it has no \<^verbatim>\<open>__eq__\<close>), so it has
  a constructor of its own; \<open>PTokens\<close> is the class \<^verbatim>\<open>Tokens\<close> of the source (a tag and a
  list). A \<^verbatim>\<open>dict\<close> is an association list in insertion order with \<^verbatim>\<open>str\<close> keys, which is
  all the source uses. \<^verbatim>\<open>EXTENSION_MARKER = None\<close>.
\<close>

datatype pyval =
    PNone
  | PBool bool
  | PInt int
  | PStr string
  | PList "pyval list"
  | PTuple "pyval list"
  | PDict "(string \<times> pyval) list"
  | PResults "pyval list"
  | PTokens string "pyval list"

definition EXTENSION_MARKER :: pyval where
  "EXTENSION_MARKER = PNone"

text \<open>
  The exceptions. \<^verbatim>\<open>ParseError\<close> and \<^verbatim>\<open>InternalParserError\<close> are the classes of the source
  (\<open>InternalParserError kind\<close> is \<^verbatim>\<open>'Unrecognized assignment kind {}.'.format(kind)\<close>).
  \<open>NotModelled\<close> is no exception of Python: it marks an operation whose effect this
  development does not cover (a results name of a \<^verbatim>\<open>ParseResults\<close>, a \<^verbatim>\<open>dict\<close> key that is not
  a \<^verbatim>\<open>str\<close>); nothing is claimed about a run that meets one.
  The text of a message is not modelled, only what it is made of: \<open>InvalidSyntax offset\<close>
  is the \<^verbatim>\<open>ParseError\<close> that \<^verbatim>\<open>parse_string\<close> makes of a \<^verbatim>\<open>textparser.ParseError\<close> at
  that offset, \<open>InvalidSyntaxPyparsing\<close> the one it makes of a \<^verbatim>\<open>ParseException\<close> or
  \<^verbatim>\<open>ParseSyntaxException\<close> of pyparsing, and \<open>DuplicatedEnumeratedNumber number line\<close> is
  \<^verbatim>\<open>'Duplicated ENUMERATED number {} at line {}.'\<close>.
\<close>

datatype parse_error =
    InvalidSyntax nat
  | InvalidSyntaxPyparsing
  | DuplicatedEnumeratedNumber int nat

datatype exn =
    ParseError parse_error
  | InternalParserError pyval
  | IndexError
  | ValueError
  | TypeError
  | KeyError
  | AttributeError
  | NotModelled

section \<open>Bit string literals\<close>

text \<open>A character class as a pattern: one character of the class.\<close>

fun re_class :: "(char \<Rightarrow> bool) \<Rightarrow> string \<Rightarrow> nat option" where
  "re_class P [] = None"
| "re_class P (c # cs) = (if P c then Some 1 else None)"

text \<open>
  \<^verbatim>\<open>'[01\s]*'B\<close> and \<^verbatim>\<open>'[0-9A-F\s]*'H\<close>: a quote, the longest run of characters of the class
  (the class does not hold the quote, so the star never gives a character back), a quote and
  the letter.
\<close>

definition re_quoted :: "(char \<Rightarrow> bool) \<Rightarrow> char \<Rightarrow> string \<Rightarrow> nat option" where
  "re_quoted P letter s =
     (case s of
        [] \<Rightarrow> None
      | q # rest \<Rightarrow>
          if q \<noteq> quote then None
          else (case dropWhile P rest of
                  a # b # _ \<Rightarrow>
                    if a = quote \<and> b = letter then Some (length (takeWhile P rest) + 3) else None
                | _ \<Rightarrow> None))"

definition is_bin_digit :: "char \<Rightarrow> bool" where
  "is_bin_digit c \<longleftrightarrow> c \<in> set ''01''"

definition is_hex_digit :: "char \<Rightarrow> bool" where
  "is_hex_digit c \<longleftrightarrow> c \<in> set ''0123456789ABCDEF''"

definition re_bstring :: "string \<Rightarrow> nat option" where
  "re_bstring = re_quoted (\<lambda>c. is_bin_digit c \<or> is_space c) CHR ''B''"

definition re_hstring :: "string \<Rightarrow> nat option" where
  "re_hstring = re_quoted (\<lambda>c. is_hex_digit c \<or> is_space c) CHR ''H''"

text \<open>
  \<^verbatim>\<open>
  def convert_bstring(_s, _l, tokens):
      return '0b' + re.sub(r"[\sB']", '', tokens[0])

  def convert_hstring(_s, _l, tokens):
      return '0x' + re.sub(r"[\sH']", '', tokens[0]).lower()
  \<close>
  \<^verbatim>\<open>tokens[0]\<close> of no token raises \<^verbatim>\<open>IndexError\<close>, \<^verbatim>\<open>re.sub\<close> on what is not a string
  \<^verbatim>\<open>TypeError\<close>.
\<close>

definition convert_bstring :: "pyval list \<Rightarrow> exn + pyval" where
  "convert_bstring tokens =
     (case tokens of
        [] \<Rightarrow> Inl IndexError
      | PStr t # _ \<Rightarrow>
          Inr (PStr (''0b'' @ re_sub (re_class (\<lambda>c. is_space c \<or> c = CHR ''B'' \<or> c = quote))
                                   (\<lambda>_. []) t))
      | _ \<Rightarrow> Inl TypeError)"

definition convert_hstring :: "pyval list \<Rightarrow> exn + pyval" where
  "convert_hstring tokens =
     (case tokens of
        [] \<Rightarrow> Inl IndexError
      | PStr t # _ \<Rightarrow>
          Inr (PStr (''0x'' @ py_lower (re_sub (re_class (\<lambda>c. is_space c \<or> c = CHR ''H'' \<or> c = quote))
                                             (\<lambda>_. []) t)))
      | _ \<Rightarrow> Inl TypeError)"

text \<open>The text between the quotes of a literal \<^verbatim>\<open>'...'B\<close> or \<^verbatim>\<open>'...'H\<close>.\<close>

definition literal_body :: "string \<Rightarrow> string" where
  "literal_body t = butlast (butlast (tl t))"

text \<open>
  The lowercase form of a hex digit, as the specification means it: \<^verbatim>\<open>A\<close>..\<^verbatim>\<open>F\<close> become
  \<^verbatim>\<open>a\<close>..\<^verbatim>\<open>f\<close>, a decimal digit stays.
\<close>

definition lower_hex_digit :: "char \<Rightarrow> char" where
  "lower_hex_digit c =
     (if c = CHR ''A'' then CHR ''a'' else if c = CHR ''B'' then CHR ''b''
      else if c = CHR ''C'' then CHR ''c'' else if c = CHR ''D'' then CHR ''d''
      else if c = CHR ''E'' then CHR ''e'' else if c = CHR ''F'' then CHR ''f''
      else c)"

lemma re_sub_class_filter: "re_sub (re_class P) (\<lambda>_. []) s = filter (\<lambda>c. \<not> P c) s"
  by (induction s) (simp_all add: re_sub.simps(2))

lemma re_quoted_shape:
  assumes "re_quoted P letter t = Some (length t)"
  shows "t = quote # takeWhile P (tl t) @ [quote, letter] \<and> literal_body t = takeWhile P (tl t)"
proof -
  from assms obtain rest where t: "t = quote # rest"
    by (cases t) (auto simp: re_quoted_def split: if_splits)
  from assms t obtain r where d: "dropWhile P rest = quote # letter # r"
    and len: "length rest = length (takeWhile P rest) + 2"
    by (auto simp: re_quoted_def split: list.splits if_splits)
  have "length rest = length (takeWhile P rest) + length (dropWhile P rest)"
    by (metis length_append takeWhile_dropWhile_id)
  with d len have "r = []" by simp
  with d have "rest = takeWhile P rest @ [quote, letter]"
    by (metis takeWhile_dropWhile_id)
  then have "butlast (butlast rest) = takeWhile P rest"
    by (metis butlast_snoc append_Cons append_Nil append_assoc butlast_append list.distinct(1))
  with t \<open>rest = takeWhile P rest @ [quote, letter]\<close> show ?thesis
    by (simp add: literal_body_def)
qed

lemma hex_kept:
  "is_hex_digit c \<Longrightarrow> \<not> is_space c \<and> c \<noteq> CHR ''H'' \<and> c \<noteq> quote"
  by (auto simp: is_hex_digit_def is_space_def quote_def)

lemma bin_kept:
  "is_bin_digit c \<Longrightarrow> \<not> is_space c \<and> c \<noteq> CHR ''B'' \<and> c \<noteq> quote"
  by (auto simp: is_bin_digit_def is_space_def quote_def)

lemma filter_body:
  assumes keep: "\<And>c. D c \<Longrightarrow> \<not> is_space c \<and> c \<noteq> letter \<and> c \<noteq> quote"
  shows "filter (\<lambda>c. \<not> (is_space c \<or> c = letter \<or> c = quote))
           (quote # takeWhile (\<lambda>c. D c \<or> is_space c) r @ [quote, letter])
         = filter D (takeWhile (\<lambda>c. D c \<or> is_space c) r)"
proof -
  have "filter (\<lambda>c. \<not> (is_space c \<or> c = letter \<or> c = quote)) b = filter D b"
    if "\<forall>c\<in>set b. D c \<or> is_space c" for b
    using that keep by (induction b) auto
  moreover have "\<forall>c\<in>set (takeWhile (\<lambda>c. D c \<or> is_space c) r). D c \<or> is_space c"
    by (auto dest: set_takeWhileD)
  ultimately show ?thesis by simp
qed

lemma convert_hstring_token:
  assumes m: "re_hstring t = Some (length t)"
  shows "convert_hstring [PStr t] = Inr (PStr (''0x'' @ py_lower (filter is_hex_digit (literal_body t))))"
proof -
  from re_quoted_shape[OF m[unfolded re_hstring_def]]
  have t: "t = quote # takeWhile (\<lambda>c. is_hex_digit c \<or> is_space c) (tl t) @ [quote, CHR ''H'']"
    and b: "literal_body t = takeWhile (\<lambda>c. is_hex_digit c \<or> is_space c) (tl t)"
    by simp_all
  have "filter (\<lambda>c. \<not> (is_space c \<or> c = CHR ''H'' \<or> c = quote)) t = filter is_hex_digit (literal_body t)"
    by (subst t, subst b) (rule filter_body, rule hex_kept)
  then show ?thesis
    by (simp add: convert_hstring_def re_sub_class_filter)
qed

lemma convert_bstring_token:
  assumes m: "re_bstring t = Some (length t)"
  shows "convert_bstring [PStr t] = Inr (PStr (''0b'' @ filter is_bin_digit (literal_body t)))"
proof -
  from re_quoted_shape[OF m[unfolded re_bstring_def]]
  have t: "t = quote # takeWhile (\<lambda>c. is_bin_digit c \<or> is_space c) (tl t) @ [quote, CHR ''B'']"
    and b: "literal_body t = takeWhile (\<lambda>c. is_bin_digit c \<or> is_space c) (tl t)"
    by simp_all
  have "filter (\<lambda>c. \<not> (is_space c \<or> c = CHR ''B'' \<or> c = quote)) t = filter is_bin_digit (literal_body t)"
    by (subst t, subst b) (rule filter_body, rule bin_kept)
  then show ?thesis
    by (simp add: convert_bstring_def re_sub_class_filter)
qed

lemma literal_body_class:
  assumes "re_quoted P letter t = Some (length t)"
  shows "\<forall>c\<in>set (literal_body t). P c"
  using re_quoted_shape[OF assms] by (auto dest: set_takeWhileD)

lemma strip_space_digits:
  assumes "\<forall>c\<in>set b. D c \<or> is_space c" and "\<And>c. D c \<Longrightarrow> \<not> is_space c"
  shows "filter (\<lambda>c. \<not> is_space c) b = filter D b"
  using assms by (induction b) auto


lemma py_lower_char_hex:
  "py_lower_char CHR ''0'' = CHR ''0''"
  "py_lower_char CHR ''1'' = CHR ''1''"
  "py_lower_char CHR ''2'' = CHR ''2''"
  "py_lower_char CHR ''3'' = CHR ''3''"
  "py_lower_char CHR ''4'' = CHR ''4''"
  "py_lower_char CHR ''5'' = CHR ''5''"
  "py_lower_char CHR ''6'' = CHR ''6''"
  "py_lower_char CHR ''7'' = CHR ''7''"
  "py_lower_char CHR ''8'' = CHR ''8''"
  "py_lower_char CHR ''9'' = CHR ''9''"
  "py_lower_char CHR ''A'' = CHR ''a''"
  "py_lower_char CHR ''B'' = CHR ''b''"
  "py_lower_char CHR ''C'' = CHR ''c''"
  "py_lower_char CHR ''D'' = CHR ''d''"
  "py_lower_char CHR ''E'' = CHR ''e''"
  "py_lower_char CHR ''F'' = CHR ''f''"
  by (simp_all add: py_lower_char_def upper_chars_def lower_chars_def)

lemma lower_hex_digit_hex:
  "lower_hex_digit CHR ''0'' = CHR ''0''"
  "lower_hex_digit CHR ''1'' = CHR ''1''"
  "lower_hex_digit CHR ''2'' = CHR ''2''"
  "lower_hex_digit CHR ''3'' = CHR ''3''"
  "lower_hex_digit CHR ''4'' = CHR ''4''"
  "lower_hex_digit CHR ''5'' = CHR ''5''"
  "lower_hex_digit CHR ''6'' = CHR ''6''"
  "lower_hex_digit CHR ''7'' = CHR ''7''"
  "lower_hex_digit CHR ''8'' = CHR ''8''"
  "lower_hex_digit CHR ''9'' = CHR ''9''"
  "lower_hex_digit CHR ''A'' = CHR ''a''"
  "lower_hex_digit CHR ''B'' = CHR ''b''"
  "lower_hex_digit CHR ''C'' = CHR ''c''"
  "lower_hex_digit CHR ''D'' = CHR ''d''"
  "lower_hex_digit CHR ''E'' = CHR ''e''"
  "lower_hex_digit CHR ''F'' = CHR ''f''"
  by (simp_all add: lower_hex_digit_def)

lemma hex_digit_cases:
  "is_hex_digit c \<longleftrightarrow>
     c = CHR ''0'' \<or> c = CHR ''1'' \<or> c = CHR ''2'' \<or> c = CHR ''3'' \<or> c = CHR ''4'' \<or> c = CHR ''5''
     \<or> c = CHR ''6'' \<or> c = CHR ''7'' \<or> c = CHR ''8'' \<or> c = CHR ''9'' \<or> c = CHR ''A'' \<or> c = CHR ''B''
     \<or> c = CHR ''C'' \<or> c = CHR ''D'' \<or> c = CHR ''E'' \<or> c = CHR ''F''"
  by (simp add: is_hex_digit_def)

lemma py_lower_hex_digit: "is_hex_digit c \<Longrightarrow> py_lower_char c = lower_hex_digit c"
  unfolding hex_digit_cases
  by (elim disjE) (simp_all only: py_lower_char_hex lower_hex_digit_hex)

lemma lower_hex_digit_range:
  "is_hex_digit c \<Longrightarrow> lower_hex_digit c \<in> set ''0123456789abcdef''"
  unfolding hex_digit_cases
  by (elim disjE) (simp_all only: lower_hex_digit_hex, simp_all)

lemma py_lower_hex_digits:
  "py_lower (filter is_hex_digit b) = map lower_hex_digit (filter is_hex_digit b)"
  by (induction b) (simp_all add: py_lower_def py_lower_hex_digit)

text \<open>
  Claim C7. A token that the pattern of an hstring matches as a whole is emitted as
  \<^verbatim>\<open>0x\<close> followed by the text between its quotes with the white space removed and every
  character in its lowercase form; what is left of the text without the white space are
  its hex digits, and every character behind \<^verbatim>\<open>0x\<close> is one of \<^verbatim>\<open>0123456789abcdef\<close>. A
  token that the pattern of a bstring matches as a whole is emitted as \<^verbatim>\<open>0b\<close> followed by
  the text between its quotes with the white space removed; what is left are its binary
  digits, all of them, in order. The literal \<^verbatim>\<open>'DE AD'H\<close> becomes \<^verbatim>\<open>0xdead\<close>.
\<close>

theorem bit_string_literals_canonical:
  "(re_hstring t = Some (length t) \<longrightarrow>
      convert_hstring [PStr t]
        = Inr (PStr (''0x'' @ map lower_hex_digit (filter (\<lambda>c. \<not> is_space c) (literal_body t))))
      \<and> filter (\<lambda>c. \<not> is_space c) (literal_body t) = filter is_hex_digit (literal_body t)
      \<and> set (map lower_hex_digit (filter (\<lambda>c. \<not> is_space c) (literal_body t)))
          \<subseteq> set ''0123456789abcdef'')
   \<and> (re_bstring t = Some (length t) \<longrightarrow>
      convert_bstring [PStr t]
        = Inr (PStr (''0b'' @ filter (\<lambda>c. \<not> is_space c) (literal_body t)))
      \<and> filter (\<lambda>c. \<not> is_space c) (literal_body t) = filter is_bin_digit (literal_body t)
      \<and> length (filter (\<lambda>c. \<not> is_space c) (literal_body t))
          = length (filter is_bin_digit (literal_body t)))
   \<and> convert_hstring [PStr (quote # ''DE AD'' @ [quote, CHR ''H''])] = Inr (PStr ''0xdead'')"
proof (intro conjI impI)
  assume h: "re_hstring t = Some (length t)"
  have "\<forall>c\<in>set (literal_body t). is_hex_digit c \<or> is_space c"
    using literal_body_class[OF h[unfolded re_hstring_def]] .
  then show e: "filter (\<lambda>c. \<not> is_space c) (literal_body t) = filter is_hex_digit (literal_body t)"
    by (rule strip_space_digits) (simp add: hex_kept)
  show "convert_hstring [PStr t]
        = Inr (PStr (''0x'' @ map lower_hex_digit (filter (\<lambda>c. \<not> is_space c) (literal_body t))))"
    using convert_hstring_token[OF h] e py_lower_hex_digits[of "literal_body t"] by simp
  show "set (map lower_hex_digit (filter (\<lambda>c. \<not> is_space c) (literal_body t)))
          \<subseteq> set ''0123456789abcdef''"
    unfolding e using lower_hex_digit_range by (auto simp del: set_simps)
next
  assume b: "re_bstring t = Some (length t)"
  have "\<forall>c\<in>set (literal_body t). is_bin_digit c \<or> is_space c"
    using literal_body_class[OF b[unfolded re_bstring_def]] .
  then show e: "filter (\<lambda>c. \<not> is_space c) (literal_body t) = filter is_bin_digit (literal_body t)"
    by (rule strip_space_digits) (simp add: bin_kept)
  then show "length (filter (\<lambda>c. \<not> is_space c) (literal_body t))
          = length (filter is_bin_digit (literal_body t))"
    by simp
  show "convert_bstring [PStr t]
        = Inr (PStr (''0b'' @ filter (\<lambda>c. \<not> is_space c) (literal_body t)))"
    using convert_bstring_token[OF b] e by simp
next
  show "convert_hstring [PStr (quote # ''DE AD'' @ [quote, CHR ''H''])] = Inr (PStr ''0xdead'')"
    by (simp add: convert_hstring_def re_sub_class_filter is_space_def quote_def py_lower_def
        py_lower_char_hex)
qed

text \<open>The theorem at \<^verbatim>\<open>'BC 0B'H\<close>, \<^verbatim>\<open>'0A F'H\<close> and \<^verbatim>\<open>'01 10'B\<close>.\<close>

theorem bit_string_literals_canonical_witness:
  "re_hstring (quote # ''BC 0B'' @ [quote, CHR ''H''])
       = Some (length (quote # ''BC 0B'' @ [quote, CHR ''H'']))
   \<and> convert_hstring [PStr (quote # ''BC 0B'' @ [quote, CHR ''H''])] = Inr (PStr ''0xbc0b'')
   \<and> re_hstring (quote # ''0A F'' @ [quote, CHR ''H''])
       = Some (length (quote # ''0A F'' @ [quote, CHR ''H'']))
   \<and> convert_hstring [PStr (quote # ''0A F'' @ [quote, CHR ''H''])] = Inr (PStr ''0x0af'')
   \<and> re_bstring (quote # ''01 10'' @ [quote, CHR ''B''])
       = Some (length (quote # ''01 10'' @ [quote, CHR ''B'']))
   \<and> convert_bstring [PStr (quote # ''01 10'' @ [quote, CHR ''B''])] = Inr (PStr ''0b0110'')"
  using bit_string_literals_canonical [of "quote # ''BC 0B'' @ [quote, CHR ''H'']"]
        bit_string_literals_canonical [of "quote # ''0A F'' @ [quote, CHR ''H'']"]
        bit_string_literals_canonical [of "quote # ''01 10'' @ [quote, CHR ''B'']"]
  by (simp add: re_hstring_def re_bstring_def re_quoted_def literal_body_def is_space_def
      is_hex_digit_def is_bin_digit_def quote_def lower_hex_digit_hex)

section \<open>Python operations\<close>

text \<open>
  A computation that may raise: \<open>Inl\<close> the exception, \<open>Inr\<close> the value. \<open>ebind\<close> runs the
  next statement on a value and passes an exception on.
\<close>

definition ebind :: "exn + 'a \<Rightarrow> ('a \<Rightarrow> exn + 'b) \<Rightarrow> exn + 'b" where
  "ebind m f = (case m of Inl e \<Rightarrow> Inl e | Inr x \<Rightarrow> f x)"

text \<open>\<^verbatim>\<open>x[i]\<close> for an index \<open>i \<ge> 0\<close>.\<close>

fun py_getitem :: "pyval \<Rightarrow> nat \<Rightarrow> exn + pyval" where
  "py_getitem (PList xs) i = (if i < length xs then Inr (xs ! i) else Inl IndexError)"
| "py_getitem (PTuple xs) i = (if i < length xs then Inr (xs ! i) else Inl IndexError)"
| "py_getitem (PResults xs) i = (if i < length xs then Inr (xs ! i) else Inl IndexError)"
| "py_getitem (PTokens tag xs) i = (if i < length xs then Inr (xs ! i) else Inl IndexError)"
| "py_getitem (PStr s) i = (if i < length s then Inr (PStr [s ! i]) else Inl IndexError)"
| "py_getitem (PDict d) i = Inl KeyError"
| "py_getitem _ i = Inl TypeError"

text \<open>\<^verbatim>\<open>tokens[i]\<close> of the token list an action is given.\<close>

definition tok :: "pyval list \<Rightarrow> nat \<Rightarrow> exn + pyval" where
  "tok tokens i = (if i < length tokens then Inr (tokens ! i) else Inl IndexError)"

text \<open>\<^verbatim>\<open>len(x)\<close>\<close>

fun py_len :: "pyval \<Rightarrow> exn + nat" where
  "py_len (PList xs) = Inr (length xs)"
| "py_len (PTuple xs) = Inr (length xs)"
| "py_len (PResults xs) = Inr (length xs)"
| "py_len (PTokens tag xs) = Inr (length xs)"
| "py_len (PStr s) = Inr (length s)"
| "py_len (PDict d) = Inr (length d)"
| "py_len _ = Inl TypeError"

text \<open>Truth of a value in a condition.\<close>

fun py_bool :: "pyval \<Rightarrow> bool" where
  "py_bool PNone = False"
| "py_bool (PBool b) = b"
| "py_bool (PInt i) = (i \<noteq> 0)"
| "py_bool (PStr s) = (s \<noteq> [])"
| "py_bool (PList xs) = (xs \<noteq> [])"
| "py_bool (PTuple xs) = (xs \<noteq> [])"
| "py_bool (PDict d) = (d \<noteq> [])"
| "py_bool (PResults xs) = (xs \<noteq> [])"
| "py_bool (PTokens tag xs) = (xs \<noteq> [])"

text \<open>
  \<^verbatim>\<open>int(x)\<close> of CPython 3. Of a string: white space around it is dropped, a sign may
  lead, and then come decimal digits, single underscores allowed between two digits. The
  white space that \<^verbatim>\<open>int\<close> drops is not that of \<^verbatim>\<open>\s\<close>: it is the ASCII white space
  9..13 and 32 and, of the code points from 128 on, the Unicode white space (below 256:
  0x85 and 0xA0), so the separators 0x1C..0x1F are not dropped and \<^verbatim>\<open>int('\x1c5')\<close> raises
  \<^verbatim>\<open>ValueError\<close>. A string of more than 4300 digits raises \<^verbatim>\<open>ValueError\<close> as well (the
  limit \<^verbatim>\<open>sys.int_info.default_max_str_digits\<close> of CPython 3.11 and later).
\<close>

definition digit_value :: "char \<Rightarrow> int" where
  "digit_value c = int (length (takeWhile (\<lambda>d. d \<noteq> c) ''0123456789''))"

fun digits_value :: "int \<Rightarrow> string \<Rightarrow> int option" where
  "digits_value acc [] = Some acc"
| "digits_value acc [c] = (if is_digit c then Some (10 * acc + digit_value c) else None)"
| "digits_value acc (c # d # cs) =
     (if is_digit c then
        (if d = CHR ''_'' then
           (case cs of [] \<Rightarrow> None
            | e # _ \<Rightarrow> if is_digit e then digits_value (10 * acc + digit_value c) cs else None)
         else digits_value (10 * acc + digit_value c) (d # cs))
      else None)"

definition is_int_space :: "char \<Rightarrow> bool" where
  "is_int_space c \<longleftrightarrow> c \<in> set [CHR 0x09, CHR 0x0A, CHR 0x0B, CHR 0x0C, CHR 0x0D,
      CHR 0x20, CHR 0x85, CHR 0xA0]"

definition int_strip :: "string \<Rightarrow> string" where
  "int_strip s = rev (dropWhile is_int_space (rev (dropWhile is_int_space s)))"

definition max_str_digits :: nat where
  "max_str_digits = 4300"

definition limited_digits_value :: "string \<Rightarrow> int option" where
  "limited_digits_value digits =
     (if max_str_digits < length (filter is_digit digits) then None
      else digits_value 0 digits)"

definition int_of_string :: "string \<Rightarrow> int option" where
  "int_of_string s =
     (case int_strip s of
        [] \<Rightarrow> None
      | c # cs \<Rightarrow>
          if c = CHR ''-'' then
            (if cs = [] then None else map_option uminus (limited_digits_value cs))
          else if c = CHR ''+'' then (if cs = [] then None else limited_digits_value cs)
          else limited_digits_value (c # cs))"

fun py_int :: "pyval \<Rightarrow> exn + int" where
  "py_int (PInt i) = Inr i"
| "py_int (PBool b) = Inr (if b then 1 else 0)"
| "py_int (PStr s) = (case int_of_string s of None \<Rightarrow> Inl ValueError | Some i \<Rightarrow> Inr i)"
| "py_int _ = Inl TypeError"

text \<open>\<^verbatim>\<open>x.asList()\<close>: only a \<^verbatim>\<open>ParseResults\<close> has the method.\<close>

fun asList :: "pyval \<Rightarrow> pyval" where
  "asList (PResults xs) = PList (map asList xs)"
| "asList v = v"

definition as_list :: "pyval \<Rightarrow> exn + pyval list" where
  "as_list v = (case v of PResults xs \<Rightarrow> Inr (map asList xs) | _ \<Rightarrow> Inl AttributeError)"

text \<open>\<^verbatim>\<open>isinstance(x, list)\<close>, \<^verbatim>\<open>isinstance(x, str)\<close>, \<^verbatim>\<open>isinstance(x, dict)\<close>.\<close>

definition is_list :: "pyval \<Rightarrow> bool" where
  "is_list v = (case v of PList _ \<Rightarrow> True | _ \<Rightarrow> False)"

definition is_str :: "pyval \<Rightarrow> bool" where
  "is_str v = (case v of PStr _ \<Rightarrow> True | _ \<Rightarrow> False)"

definition is_dict :: "pyval \<Rightarrow> bool" where
  "is_dict v = (case v of PDict _ \<Rightarrow> True | _ \<Rightarrow> False)"

text \<open>\<^verbatim>\<open>lineno(loc, strg)\<close> of pyparsing: \<^verbatim>\<open>strg.count("\n", 0, loc) + 1\<close>.\<close>

definition lineno :: "nat \<Rightarrow> string \<Rightarrow> nat" where
  "lineno loc strg = length (filter (\<lambda>c. c = newline) (take loc strg)) + 1"

section \<open>ENUMERATED numbering\<close>

text \<open>
  \<^verbatim>\<open>
  def add_used_numbers(items):
      for item in items:
          if not isinstance(item, list):
              continue
          item_number = int(item[2])
          if item_number in used_numbers:
              raise ParseError(
                  'Duplicated ENUMERATED number {} at line {}.'.format(
                      item_number, lineno(location, string)))
          used_numbers.append(item_number)
  \<close>
  The closure's \<^verbatim>\<open>used_numbers\<close> is passed and returned.
\<close>

fun add_used_numbers :: "string \<Rightarrow> nat \<Rightarrow> pyval list \<Rightarrow> int list \<Rightarrow> exn + int list" where
  "add_used_numbers string location [] used_numbers = Inr used_numbers"
| "add_used_numbers string location (item # items) used_numbers =
     (if \<not> is_list item then add_used_numbers string location items used_numbers
      else ebind (py_getitem item 2) (\<lambda>x.
           ebind (py_int x) (\<lambda>item_number.
             if item_number \<in> set used_numbers
             then Inl (ParseError (DuplicatedEnumeratedNumber item_number (lineno location string)))
             else add_used_numbers string location items (used_numbers @ [item_number]))))"

text \<open>\<^verbatim>\<open>while number in used_numbers: number += 1\<close>\<close>

function next_unused :: "int list \<Rightarrow> int \<Rightarrow> int" where
  "next_unused used_numbers number =
     (if number \<in> set used_numbers then next_unused used_numbers (number + 1) else number)"
  by pat_completeness auto
termination
proof (relation "measure (\<lambda>(used, n). card {k \<in> set used. n \<le> k})")
  show "wf (measure (\<lambda>(used, n). card {k \<in> set used. n \<le> k}))" by simp
next
  fix used_numbers :: "int list" and number :: int
  assume m: "number \<in> set used_numbers"
  have "number \<in> {k \<in> set used_numbers. number \<le> k}"
    and "number \<notin> {k \<in> set used_numbers. number + 1 \<le> k}"
    and "{k \<in> set used_numbers. number + 1 \<le> k} \<subseteq> {k \<in> set used_numbers. number \<le> k}"
    using m by auto
  then have "{k \<in> set used_numbers. number + 1 \<le> k} \<subset> {k \<in> set used_numbers. number \<le> k}"
    by blast
  then have "card {k \<in> set used_numbers. number + 1 \<le> k} < card {k \<in> set used_numbers. number \<le> k}"
    by (intro psubset_card_mono) auto
  then show "((used_numbers, number + 1), (used_numbers, number))
        \<in> measure (\<lambda>(used, n). card {k \<in> set used. n \<le> k})"
    by simp
qed

declare next_unused.simps [simp del]

text \<open>
  The loop over the root enumeration; the state is \<^verbatim>\<open>number\<close>, \<^verbatim>\<open>values\<close> and
  \<^verbatim>\<open>used_numbers\<close>:
  \<^verbatim>\<open>
  for token in root:
      if isinstance(token, list):
          values.append((token[0], int(token[2])))
      else:
          while number in used_numbers:
              number += 1
          used_numbers.append(number)
          values.append((token, number))
          number += 1
  \<close>
\<close>

fun root_loop :: "pyval list \<Rightarrow> int \<times> pyval list \<times> int list \<Rightarrow> exn + int \<times> pyval list \<times> int list" where
  "root_loop [] st = Inr st"
| "root_loop (token # root) (number, values, used_numbers) =
     (if is_list token then
        ebind (py_getitem token 0) (\<lambda>name.
        ebind (py_getitem token 2) (\<lambda>x.
        ebind (py_int x) (\<lambda>k.
          root_loop root (number, values @ [PTuple [name, PInt k]], used_numbers))))
      else
        (let number = next_unused used_numbers number in
         root_loop root (number + 1, values @ [PTuple [token, PInt number]],
                         used_numbers @ [number])))"

text \<open>
  \<^verbatim>\<open>
  for token in additional:
      if isinstance(token, list):
          number = int(token[2])
          values.append((token[0], number))
      else:
          if number in used_numbers:
              raise ParseError(
                  'Duplicated ENUMERATED number {} at line {}.'.format(
                      number, lineno(location, string)))
          values.append((token, number))
          used_numbers.append(number)
      number += 1
  \<close>
\<close>

fun additional_loop :: "string \<Rightarrow> nat \<Rightarrow> pyval list \<Rightarrow> int \<times> pyval list \<times> int list
    \<Rightarrow> exn + int \<times> pyval list \<times> int list" where
  "additional_loop string location [] st = Inr st"
| "additional_loop string location (token # additional) (number, values, used_numbers) =
     (if is_list token then
        ebind (py_getitem token 2) (\<lambda>x.
        ebind (py_int x) (\<lambda>number.
        ebind (py_getitem token 0) (\<lambda>name.
          additional_loop string location additional
            (number + 1, values @ [PTuple [name, PInt number]], used_numbers))))
      else if number \<in> set used_numbers
        then Inl (ParseError (DuplicatedEnumeratedNumber number (lineno location string)))
      else additional_loop string location additional
             (number + 1, values @ [PTuple [token, PInt number]], used_numbers @ [number]))"

text \<open>
  \<^verbatim>\<open>
  def convert_enum_values(string, location, tokens):
      number = 0
      values = []
      used_numbers = []
      root, extension = tokens
      root = root.asList()
      extension = extension.asList()
      ...
      # Root enumeration.
      add_used_numbers(root)
      for token in root: ...
      # Optional additional enumeration.
      if extension:
          values.append(EXTENSION_MARKER)
          additional = extension[1:]
          add_used_numbers(additional)
          for token in additional: ...
      return values
  \<close>
  \<^verbatim>\<open>tokens\<close> is the value of \<^verbatim>\<open>tokens[2]\<close> of the enumerated type; unpacking it raises
  \<^verbatim>\<open>ValueError\<close> unless it has two items (\<^verbatim>\<open>TypeError\<close> if it cannot be iterated).
\<close>

definition unpack2 :: "pyval \<Rightarrow> exn + pyval \<times> pyval" where
  "unpack2 v =
     (case v of
        PResults [a, b] \<Rightarrow> Inr (a, b)
      | PList [a, b] \<Rightarrow> Inr (a, b)
      | PTuple [a, b] \<Rightarrow> Inr (a, b)
      | PTokens tag [a, b] \<Rightarrow> Inr (a, b)
      | PStr [a, b] \<Rightarrow> Inr (PStr [a], PStr [b])
      | PDict [a, b] \<Rightarrow> Inr (PStr (fst a), PStr (fst b))
      | PNone \<Rightarrow> Inl TypeError
      | PBool _ \<Rightarrow> Inl TypeError
      | PInt _ \<Rightarrow> Inl TypeError
      | _ \<Rightarrow> Inl ValueError)"

definition convert_enum_values :: "string \<Rightarrow> nat \<Rightarrow> pyval \<Rightarrow> exn + pyval" where
  "convert_enum_values string location tokens =
     ebind (unpack2 tokens) (\<lambda>(root, extension).
     ebind (as_list root) (\<lambda>root.
     ebind (as_list extension) (\<lambda>extension.
     ebind (add_used_numbers string location root []) (\<lambda>used_numbers.
     ebind (root_loop root (0, [], used_numbers)) (\<lambda>(number, values, used_numbers).
       if extension \<noteq> [] then
         (let values = values @ [EXTENSION_MARKER];
              additional = drop 1 extension in
          ebind (add_used_numbers string location additional used_numbers) (\<lambda>used_numbers.
          ebind (additional_loop string location additional (number, values, used_numbers))
            (\<lambda>(number, values, used_numbers). Inr (PList values))))
       else Inr (PList values))))))"

text \<open>
  The items of an enumeration as the grammar hands them over: a bare identifier is its
  text, an item with a number the group \<^verbatim>\<open>[name, '(', number, ')']\<close>.
\<close>

datatype enum_item = Unnamed string | Named string int

fun item_token :: "enum_item \<Rightarrow> pyval" where
  "item_token (Unnamed name) = PStr name"
| "item_token (Named name k) = PResults [PStr name, PStr ''('', PInt k, PStr '')'']"

text \<open>The same after \<^verbatim>\<open>asList()\<close>.\<close>

fun item_list :: "enum_item \<Rightarrow> pyval" where
  "item_list (Unnamed name) = PStr name"
| "item_list (Named name k) = PList [PStr name, PStr ''('', PInt k, PStr '')'']"

fun explicit_numbers :: "enum_item list \<Rightarrow> int list" where
  "explicit_numbers [] = []"
| "explicit_numbers (Unnamed name # items) = explicit_numbers items"
| "explicit_numbers (Named name k # items) = k # explicit_numbers items"



text \<open>The smallest non-negative integer that is not in \<open>U\<close>.\<close>

definition smallest_unused :: "int set \<Rightarrow> int \<Rightarrow> bool" where
  "smallest_unused U v \<longleftrightarrow> 0 \<le> v \<and> v \<notin> U \<and> (\<forall>k. 0 \<le> k \<and> k < v \<longrightarrow> k \<in> U)"


lemma asList_item_token: "map asList (map item_token items) = map item_list items"
  by (induction items rule: explicit_numbers.induct) simp_all




lemma add_used_numbers_duplicate:
  "distinct used \<Longrightarrow> \<not> distinct (used @ explicit_numbers items) \<Longrightarrow>
   \<exists>k. add_used_numbers s l (map item_list items) used
         = Inl (ParseError (DuplicatedEnumeratedNumber k (lineno l s)))"
proof (induction items arbitrary: used rule: explicit_numbers.induct)
  case 1
  then show ?case by simp
next
  case (2 name items)
  then show ?case by (simp add: is_list_def)
next
  case (3 name k items)
  show ?case
  proof (cases "k \<in> set used")
    case True
    then show ?thesis by (simp add: is_list_def ebind_def)
  next
    case False
    with 3(2) have d: "distinct (used @ [k])" by simp
    from 3(3) have "\<not> distinct ((used @ [k]) @ explicit_numbers items)" by simp
    from 3(1)[OF d this] False show ?thesis by (simp add: is_list_def ebind_def)
  qed
qed


lemma convert_enum_values_duplicate:
  assumes "\<not> distinct (explicit_numbers root)"
  shows "\<exists>k. convert_enum_values s l (PResults [PResults (map item_token root), PResults ext])
           = Inl (ParseError (DuplicatedEnumeratedNumber k (lineno l s)))"
proof -
  from add_used_numbers_duplicate[of "[]" root s l] assms
  obtain k where "add_used_numbers s l (map item_list root) []
         = Inl (ParseError (DuplicatedEnumeratedNumber k (lineno l s)))" by auto
  then have "convert_enum_values s l (PResults [PResults (map item_token root), PResults ext])
           = Inl (ParseError (DuplicatedEnumeratedNumber k (lineno l s)))"
    by (simp add: convert_enum_values_def unpack2_def as_list_def ebind_def asList_item_token
        del: map_map)
  then show ?thesis ..
qed

lemma smallest_unused_unique:
  "smallest_unused U v \<Longrightarrow> smallest_unused U w \<Longrightarrow> v = w"
  unfolding smallest_unused_def by (metis linorder_neqE_linordered_idom)




section \<open>Python containers\<close>

text \<open>What a \<^verbatim>\<open>for\<close> loop, an unpacking or \<^verbatim>\<open>tuple(x)\<close> iterates over: the items of a
  sequence, the characters of a \<^verbatim>\<open>str\<close>, the keys of a \<^verbatim>\<open>dict\<close>.\<close>

definition py_iter :: "pyval \<Rightarrow> exn + pyval list" where
  "py_iter v =
     (case v of
        PList xs \<Rightarrow> Inr xs
      | PTuple xs \<Rightarrow> Inr xs
      | PResults xs \<Rightarrow> Inr xs
      | PTokens tag xs \<Rightarrow> Inr xs
      | PStr s \<Rightarrow> Inr (map (\<lambda>c. PStr [c]) s)
      | PDict d \<Rightarrow> Inr (map (\<lambda>p. PStr (fst p)) d)
      | _ \<Rightarrow> Inl TypeError)"

definition unpack3 :: "pyval \<Rightarrow> exn + pyval \<times> pyval \<times> pyval" where
  "unpack3 v =
     ebind (py_iter v) (\<lambda>xs.
       case xs of [a, b, c] \<Rightarrow> Inr (a, b, c) | _ \<Rightarrow> Inl ValueError)"

text \<open>
  \<^verbatim>\<open>x == 'text'\<close> for a \<^verbatim>\<open>str\<close> literal. A \<^verbatim>\<open>Tokens\<close> compares by its tag
  (\<^verbatim>\<open>def __eq__(self, other): return other == self.tag\<close>), a \<^verbatim>\<open>str\<close> by its text, and
  nothing else equals a \<^verbatim>\<open>str\<close>.
\<close>

definition eq_str :: "pyval \<Rightarrow> string \<Rightarrow> bool" where
  "eq_str v t = (case v of PStr s \<Rightarrow> s = t | PTokens tag xs \<Rightarrow> tag = t | _ \<Rightarrow> False)"

fun starts_with :: "string \<Rightarrow> string \<Rightarrow> bool" where
  "starts_with [] s = True"
| "starts_with (m # ms) [] = False"
| "starts_with (m # ms) (c # cs) = (m = c \<and> starts_with ms cs)"

fun contains_str :: "string \<Rightarrow> string \<Rightarrow> bool" where
  "contains_str sub [] = (sub = [])"
| "contains_str sub (c # cs) = (starts_with sub (c # cs) \<or> contains_str sub cs)"

text \<open>
  \<^verbatim>\<open>'text' in x\<close>: a substring of a \<^verbatim>\<open>str\<close>, an item of a sequence, a key of a \<^verbatim>\<open>dict\<close>.
  \<^verbatim>\<open>ParseResults.__contains__\<close> looks among the results names, and the grammar gives
  none.
\<close>

definition str_in :: "string \<Rightarrow> pyval \<Rightarrow> exn + bool" where
  "str_in t v =
     (case v of
        PStr s \<Rightarrow> Inr (contains_str t s)
      | PList xs \<Rightarrow> Inr (list_ex (\<lambda>x. eq_str x t) xs)
      | PTuple xs \<Rightarrow> Inr (list_ex (\<lambda>x. eq_str x t) xs)
      | PTokens tag xs \<Rightarrow> Inr (list_ex (\<lambda>x. eq_str x t) xs)
      | PDict d \<Rightarrow> Inr (map_of d t \<noteq> None)
      | PResults xs \<Rightarrow> Inr False
      | _ \<Rightarrow> Inl TypeError)"

text \<open>\<^verbatim>\<open>d[k] = v\<close> on a \<^verbatim>\<open>dict\<close>: a key already there keeps its place.\<close>

primrec dict_set :: "(string \<times> pyval) list \<Rightarrow> string \<Rightarrow> pyval \<Rightarrow> (string \<times> pyval) list" where
  "dict_set [] k v = [(k, v)]"
| "dict_set (p # ps) k v = (if fst p = k then (k, v) # ps else p # dict_set ps k v)"

text \<open>\<^verbatim>\<open>d.update(e)\<close>\<close>

definition dict_update :: "(string \<times> pyval) list \<Rightarrow> (string \<times> pyval) list \<Rightarrow> (string \<times> pyval) list" where
  "dict_update d e = foldl (\<lambda>d p. dict_set d (fst p) (snd p)) d e"

text \<open>A value used as a key: a \<^verbatim>\<open>list\<close>, a \<^verbatim>\<open>dict\<close> and a \<^verbatim>\<open>Tokens\<close> (it defines \<^verbatim>\<open>__eq__\<close>
  and no \<^verbatim>\<open>__hash__\<close>) are unhashable.\<close>

definition key_of :: "pyval \<Rightarrow> exn + string" where
  "key_of v =
     (case v of
        PStr s \<Rightarrow> Inr s
      | PList xs \<Rightarrow> Inl TypeError
      | PDict d \<Rightarrow> Inl TypeError
      | PTokens tag xs \<Rightarrow> Inl TypeError
      | _ \<Rightarrow> Inl NotModelled)"

text \<open>\<^verbatim>\<open>x['key'] = v\<close> and \<^verbatim>\<open>x['key']\<close> for a \<^verbatim>\<open>str\<close> key.\<close>

definition py_setitem :: "pyval \<Rightarrow> string \<Rightarrow> pyval \<Rightarrow> exn + pyval" where
  "py_setitem x k v =
     (case x of
        PDict d \<Rightarrow> Inr (PDict (dict_set d k v))
      | PResults xs \<Rightarrow> Inl NotModelled
      | _ \<Rightarrow> Inl TypeError)"

definition py_getkey :: "pyval \<Rightarrow> string \<Rightarrow> exn + pyval" where
  "py_getkey x k =
     (case x of
        PDict d \<Rightarrow> (case map_of d k of Some v \<Rightarrow> Inr v | None \<Rightarrow> Inl KeyError)
      | PResults xs \<Rightarrow> Inl KeyError
      | _ \<Rightarrow> Inl TypeError)"

text \<open>\<^verbatim>\<open>x.update(e)\<close> for a \<^verbatim>\<open>dict\<close> \<^verbatim>\<open>e\<close>. An attribute a \<^verbatim>\<open>ParseResults\<close> does not have is
  \<^verbatim>\<open>''\<close> (its \<^verbatim>\<open>__getattr__\<close>), and calling that is a \<^verbatim>\<open>TypeError\<close>.\<close>

definition py_update :: "pyval \<Rightarrow> (string \<times> pyval) list \<Rightarrow> exn + pyval" where
  "py_update x e =
     (case x of
        PDict d \<Rightarrow> Inr (PDict (dict_update d e))
      | PResults xs \<Rightarrow> Inl TypeError
      | _ \<Rightarrow> Inl AttributeError)"

text \<open>\<^verbatim>\<open>isinstance(x, Tokens)\<close>, \<^verbatim>\<open>isinstance(x, int)\<close> (a \<^verbatim>\<open>bool\<close> is an \<^verbatim>\<open>int\<close>).\<close>

definition is_tokens :: "pyval \<Rightarrow> bool" where
  "is_tokens v = (case v of PTokens tag xs \<Rightarrow> True | _ \<Rightarrow> False)"

definition is_int :: "pyval \<Rightarrow> bool" where
  "is_int v = (case v of PInt i \<Rightarrow> True | PBool b \<Rightarrow> True | _ \<Rightarrow> False)"

text \<open>\<^verbatim>\<open>x.islower()\<close>: some cased character, and every cased character lower case. Below
  code point 256 the lower case characters are \<^verbatim>\<open>a\<close>..\<^verbatim>\<open>z\<close>, 0xAA, 0xB5, 0xBA and 0xDF..0xFF
  without the division sign 0xF7.\<close>

definition lowercase_char :: "char \<Rightarrow> bool" where
  "lowercase_char c \<longleftrightarrow> c \<in> set lower_chars
     \<or> c \<in> set [CHR 0xAA, CHR 0xB5, CHR 0xBA, CHR 0xDF, CHR 0xFF]"

definition islower :: "string \<Rightarrow> bool" where
  "islower s \<longleftrightarrow> list_ex lowercase_char s \<and> \<not> list_ex (\<lambda>c. c \<in> set upper_chars) s"

definition py_islower :: "pyval \<Rightarrow> exn + bool" where
  "py_islower v =
     (case v of
        PStr s \<Rightarrow> Inr (islower s)
      | PResults xs \<Rightarrow> Inl TypeError
      | _ \<Rightarrow> Inl AttributeError)"

text \<open>\<^verbatim>\<open>merge_dicts(dicts)\<close> is \<^verbatim>\<open>{k: v for d in dicts for k, v in d.items()}\<close>. A
  \<^verbatim>\<open>ParseResults\<close> has \<^verbatim>\<open>items()\<close> too: its results names, of which there are none.\<close>

fun merge_into :: "(string \<times> pyval) list \<Rightarrow> pyval list \<Rightarrow> exn + pyval" where
  "merge_into acc [] = Inr (PDict acc)"
| "merge_into acc (d # dicts) =
     (case d of
        PDict e \<Rightarrow> merge_into (dict_update acc e) dicts
      | PResults xs \<Rightarrow> merge_into acc dicts
      | _ \<Rightarrow> Inl AttributeError)"

definition merge_dicts :: "pyval list \<Rightarrow> exn + pyval" where
  "merge_dicts dicts = merge_into [] dicts"

section \<open>The parse actions\<close>

text \<open>
  A parse action gets the text, the location and the tokens of its expression. The tokens
  are a \<^verbatim>\<open>ParseResults\<close>, here the list of its items; an action that returns \<^verbatim>\<open>tokens\<close>
  returns \<open>PResults tokens\<close>.
\<close>

type_synonym converter = "string \<Rightarrow> nat \<Rightarrow> pyval list \<Rightarrow> exn + pyval"

text \<open>
  \<^verbatim>\<open>
  def convert_integer(_s, _l, tokens):
      try:
          return int(tokens[0])
      except (IndexError, ValueError):
          return tokens
  \<close>
\<close>

definition convert_integer :: converter where
  "convert_integer s l tokens =
     (case ebind (tok tokens 0) py_int of
        Inr i \<Rightarrow> Inr (PInt i)
      | Inl IndexError \<Rightarrow> Inr (PResults tokens)
      | Inl ValueError \<Rightarrow> Inr (PResults tokens)
      | Inl e \<Rightarrow> Inl e)"

text \<open>
  \<^verbatim>\<open>
  def convert_real_number(_s, _l, tokens):
      if '.' not in tokens[0]:
          tokens = int(tokens[0])
      return tokens
  \<close>
\<close>

definition convert_real_number :: converter where
  "convert_real_number s l tokens =
     ebind (tok tokens 0) (\<lambda>t0.
     ebind (str_in ''.'' t0) (\<lambda>dotted.
       if \<not> dotted then ebind (py_int t0) (\<lambda>i. Inr (PInt i))
       else Inr (PResults tokens)))"

text \<open>
  \<^verbatim>\<open>
  def convert_number(token):
      if isinstance(token, list):
          token = token[0]
      try:
          return int(token)
      except (ValueError, TypeError):
          return token
  \<close>
\<close>

definition convert_number :: "pyval \<Rightarrow> exn + pyval" where
  "convert_number token =
     ebind (if is_list token then py_getitem token 0 else Inr token) (\<lambda>token.
       case py_int token of
         Inr i \<Rightarrow> Inr (PInt i)
       | Inl ValueError \<Rightarrow> Inr token
       | Inl TypeError \<Rightarrow> Inr token
       | Inl e \<Rightarrow> Inl e)"

text \<open>
  \<^verbatim>\<open>
  def convert_size(tokens):
      if len(tokens) == 0:
          return None
      tokens = tokens[0]
      if tokens[0] == 'SIZE':
          values = []
          for item_tokens in tokens[1].asList():
              if '..' in item_tokens:
                  value = (convert_number(item_tokens[0]),
                           convert_number(item_tokens[2]))
              else:
                  value = convert_number(item_tokens[0])
              values.append(value)
          return values
      elif isinstance(tokens[0], dict):
          if 'size' in tokens[0]:
              return tokens[0]['size']
  \<close>
\<close>

definition size_value :: "pyval \<Rightarrow> exn + pyval" where
  "size_value item_tokens =
     ebind (str_in ''..'' item_tokens) (\<lambda>ranged.
       if ranged then
         ebind (py_getitem item_tokens 0) (\<lambda>a.
         ebind (convert_number a) (\<lambda>a.
         ebind (py_getitem item_tokens 2) (\<lambda>b.
         ebind (convert_number b) (\<lambda>b. Inr (PTuple [a, b])))))
       else ebind (py_getitem item_tokens 0) convert_number)"

fun size_values :: "pyval list \<Rightarrow> pyval list \<Rightarrow> exn + pyval list" where
  "size_values [] values = Inr values"
| "size_values (item_tokens # rest) values =
     ebind (size_value item_tokens) (\<lambda>value. size_values rest (values @ [value]))"

definition convert_size :: "pyval \<Rightarrow> exn + pyval" where
  "convert_size tokens =
     ebind (py_len tokens) (\<lambda>n.
       if n = 0 then Inr PNone
       else
         ebind (py_getitem tokens 0) (\<lambda>tokens.
         ebind (py_getitem tokens 0) (\<lambda>t0.
           if eq_str t0 ''SIZE'' then
             ebind (py_getitem tokens 1) (\<lambda>t1.
             ebind (as_list t1) (\<lambda>items.
             ebind (size_values items []) (\<lambda>values. Inr (PList values))))
           else
             (case t0 of
                PDict d \<Rightarrow> (case map_of d ''size'' of Some v \<Rightarrow> Inr v | None \<Rightarrow> Inr PNone)
              | _ \<Rightarrow> Inr PNone))))"

text \<open>
  \<^verbatim>\<open>
  def convert_table(tokens):
      tokens = tokens[0]
      try:
          if isinstance(tokens[1][0][0], list):
              defined_object_set = tokens[1][0][0][0]
          else:
              defined_object_set = tokens[1][0][0]
      except IndexError:
          return None
      try:
          component_ids = tokens[4]
      except IndexError:
          return defined_object_set
      return [defined_object_set, component_ids]
  \<close>
\<close>

definition convert_table :: "pyval \<Rightarrow> exn + pyval" where
  "convert_table tokens =
     ebind (py_getitem tokens 0) (\<lambda>tokens.
       case ebind (py_getitem tokens 1) (\<lambda>a.
            ebind (py_getitem a 0) (\<lambda>b.
            ebind (py_getitem b 0) (\<lambda>c.
              if is_list c then py_getitem c 0 else Inr c))) of
         Inl IndexError \<Rightarrow> Inr PNone
       | Inl e \<Rightarrow> Inl e
       | Inr defined_object_set \<Rightarrow>
           (case py_getitem tokens 4 of
              Inl IndexError \<Rightarrow> Inr defined_object_set
            | Inl e \<Rightarrow> Inl e
            | Inr component_ids \<Rightarrow> Inr (PList [defined_object_set, component_ids])))"

text \<open>
  \<^verbatim>\<open>
  def convert_tag(tokens):
      if len(tokens) > 0:
          if len(tokens[0]) == 1:
              tag = {
                  'number': int(tokens[0][0])
              }
          else:
              tag = {
                  'number': convert_number(tokens[0][1]),
                  'class': tokens[0][0]
              }
          if tokens[1]:
              tag['kind'] = tokens[1][0] if tokens[1] else None
          return tag
  \<close>
\<close>

definition convert_tag :: "pyval \<Rightarrow> exn + pyval" where
  "convert_tag tokens =
     ebind (py_len tokens) (\<lambda>n.
       if n > 0 then
         ebind (py_getitem tokens 0) (\<lambda>t0.
         ebind (py_len t0) (\<lambda>n0.
         ebind (if n0 = 1 then
                  ebind (py_getitem t0 0) (\<lambda>x.
                  ebind (py_int x) (\<lambda>i. Inr [(''number'', PInt i)]))
                else
                  ebind (py_getitem t0 1) (\<lambda>x.
                  ebind (convert_number x) (\<lambda>number.
                  ebind (py_getitem t0 0) (\<lambda>cls.
                    Inr [(''number'', number), (''class'', cls)])))) (\<lambda>tag.
         ebind (py_getitem tokens 1) (\<lambda>t1.
           if py_bool t1 then
             ebind (py_getitem t1 0) (\<lambda>kind. Inr (PDict (dict_set tag ''kind'' kind)))
           else Inr (PDict tag)))))
       else Inr PNone)"

text \<open>
  \<^verbatim>\<open>
  def convert_value_range(_s, _l, tokens):
      tokens = tokens.asList()
      minimum = tokens[0]
      if isinstance(minimum, list):
          minimum = minimum[0]
      maximum = tokens[1]
      if isinstance(maximum, list):
          maximum = maximum[0]
      return (minimum, maximum)
  \<close>
  The two endpoints are recorded as they come; they are not compared.
\<close>

definition convert_value_range :: converter where
  "convert_value_range s l tokens =
     (let tokens = map asList tokens in
      ebind (tok tokens 0) (\<lambda>minimum.
      ebind (if is_list minimum then py_getitem minimum 0 else Inr minimum) (\<lambda>minimum.
      ebind (tok tokens 1) (\<lambda>maximum.
      ebind (if is_list maximum then py_getitem maximum 0 else Inr maximum) (\<lambda>maximum.
        Inr (PTuple [minimum, maximum]))))))"

text \<open>
  \<^verbatim>\<open>
  def convert_inner_type_constraints(_s, _l, tokens):
      tokens = tokens.asList()
      components = []
      for item_tokens in tokens[2]:
          if item_tokens == '...':
              value = EXTENSION_MARKER
          elif len(item_tokens) == 2:
              if isinstance(item_tokens[1], list):
                  value = item_tokens[1][0]
                  if isinstance(value, list):
                      value = value[0]
                  value = (item_tokens[0], value)
              else:
                  value = (item_tokens[0], item_tokens[1])
          else:
              value = item_tokens
          components.append(value)
      return {'with-components': components}
  \<close>
\<close>

definition inner_component :: "pyval \<Rightarrow> exn + pyval" where
  "inner_component item_tokens =
     (if eq_str item_tokens ''...'' then Inr EXTENSION_MARKER
      else
        ebind (py_len item_tokens) (\<lambda>n.
          if n = 2 then
            ebind (py_getitem item_tokens 1) (\<lambda>i1.
              if is_list i1 then
                ebind (py_getitem i1 0) (\<lambda>value.
                ebind (if is_list value then py_getitem value 0 else Inr value) (\<lambda>value.
                ebind (py_getitem item_tokens 0) (\<lambda>i0. Inr (PTuple [i0, value]))))
              else ebind (py_getitem item_tokens 0) (\<lambda>i0. Inr (PTuple [i0, i1])))
          else Inr item_tokens))"

fun inner_components :: "pyval list \<Rightarrow> pyval list \<Rightarrow> exn + pyval list" where
  "inner_components [] components = Inr components"
| "inner_components (item_tokens # rest) components =
     ebind (inner_component item_tokens) (\<lambda>value.
       inner_components rest (components @ [value]))"

definition convert_inner_type_constraints :: converter where
  "convert_inner_type_constraints s l tokens =
     (let tokens = map asList tokens in
      ebind (tok tokens 2) (\<lambda>t2.
      ebind (py_iter t2) (\<lambda>items.
      ebind (inner_components items []) (\<lambda>components.
        Inr (PDict [(''with-components'', PList components)])))))"

text \<open>
  \<^verbatim>\<open>
  def convert_size_constraint(_s, _l, tokens):
      tokens = tokens.asList()[1]
      values = []
      for item_tokens in tokens:
          if item_tokens == '...':
              value = EXTENSION_MARKER
          elif '..' in item_tokens:
              value = (convert_number(item_tokens[0]),
                       convert_number(item_tokens[2]))
          else:
              value = convert_number(item_tokens[0])
          values.append(value)
      return {'size': values}
  \<close>
\<close>

fun size_constraint_values :: "pyval list \<Rightarrow> pyval list \<Rightarrow> exn + pyval list" where
  "size_constraint_values [] values = Inr values"
| "size_constraint_values (item_tokens # rest) values =
     ebind (if eq_str item_tokens ''...'' then Inr EXTENSION_MARKER
            else size_value item_tokens) (\<lambda>value.
       size_constraint_values rest (values @ [value]))"

definition convert_size_constraint :: converter where
  "convert_size_constraint s l tokens =
     ebind (tok (map asList tokens) 1) (\<lambda>tokens.
     ebind (py_iter tokens) (\<lambda>items.
     ebind (size_constraint_values items []) (\<lambda>values.
       Inr (PDict [(''size'', PList values)]))))"

text \<open>
  \<^verbatim>\<open>
  def convert_permitted_alphabet(_s, _l, tokens):
      tokens = tokens.asList()
      values = []
      for token in tokens[1:]:
          if isinstance(token[0], list):
              for char in token[0][0]:
                  values.append((char, char))
          else:
              values.append(token[0])
      return {'from': values}
  \<close>
\<close>

fun permitted_values :: "pyval list \<Rightarrow> pyval list \<Rightarrow> exn + pyval list" where
  "permitted_values [] values = Inr values"
| "permitted_values (token # rest) values =
     ebind (py_getitem token 0) (\<lambda>t0.
       if is_list t0 then
         ebind (py_getitem t0 0) (\<lambda>t00.
         ebind (py_iter t00) (\<lambda>chars.
           permitted_values rest (values @ map (\<lambda>char. PTuple [char, char]) chars)))
       else permitted_values rest (values @ [t0]))"

definition convert_permitted_alphabet :: converter where
  "convert_permitted_alphabet s l tokens =
     ebind (permitted_values (drop 1 (map asList tokens)) []) (\<lambda>values.
       Inr (PDict [(''from'', PList values)]))"

text \<open>
  \<^verbatim>\<open>
  def convert_constraint(_s, _l, tokens):
      tokens = tokens.asList()
  \<close>
  It returns \<^verbatim>\<open>None\<close>, which leaves the tokens as they are.
\<close>

definition convert_constraint :: converter where
  "convert_constraint s l tokens = Inr PNone"

text \<open>
  \<^verbatim>\<open>
  def convert_type(tokens):
      converted_type, constraints = tokens
      restricted_to = []
      for constraint_tokens in constraints:
          if isinstance(constraint_tokens, ParseResults):
              constraint_tokens = constraint_tokens.asList()
          if constraint_tokens == '...':
              restricted_to.append(EXTENSION_MARKER)
          elif len(constraint_tokens) == 1:
              if not isinstance(constraint_tokens[0], dict):
                  restricted_to.append(convert_number(constraint_tokens[0]))
              elif 'size' in constraint_tokens[0]:
                  converted_type.update(constraint_tokens[0])
              elif 'from' in constraint_tokens[0]:
                  converted_type.update(constraint_tokens[0])
              elif 'with-components' in constraint_tokens[0]:
                  converted_type.update(constraint_tokens[0])
      if '{' in restricted_to:
          restricted_to = []
      if restricted_to:
          converted_type['restricted-to'] = restricted_to
      types = ['BIT STRING', 'OCTET STRING', 'IA5String', 'VisibleString',
               'UTF8String', 'NumericString', 'PrintableString']
      if converted_type['type'] in types:
          size = convert_size(constraints)
          if size:
              converted_type['size'] = size
      if '&' in converted_type['type']:
          converted_type['table'] = convert_table(tokens.asList()[1:])
      return converted_type
  \<close>
  The \<^verbatim>\<open>dict\<close> \<^verbatim>\<open>converted_type\<close> is updated in place; it is the value returned, and the
  token it came from is not read again, so the updated \<^verbatim>\<open>dict\<close> is passed along.
\<close>

fun constraints_loop :: "pyval list \<Rightarrow> pyval \<times> pyval list \<Rightarrow> exn + pyval \<times> pyval list" where
  "constraints_loop [] st = Inr st"
| "constraints_loop (constraint_tokens # rest) (converted_type, restricted_to) =
     (let constraint_tokens = asList constraint_tokens in
      if eq_str constraint_tokens ''...''
      then constraints_loop rest (converted_type, restricted_to @ [EXTENSION_MARKER])
      else
        ebind (py_len constraint_tokens) (\<lambda>n.
          if n = 1 then
            ebind (py_getitem constraint_tokens 0) (\<lambda>c0.
              case c0 of
                PDict d \<Rightarrow>
                  if map_of d ''size'' \<noteq> None \<or> map_of d ''from'' \<noteq> None
                     \<or> map_of d ''with-components'' \<noteq> None
                  then ebind (py_update converted_type d) (\<lambda>converted_type.
                         constraints_loop rest (converted_type, restricted_to))
                  else constraints_loop rest (converted_type, restricted_to)
              | _ \<Rightarrow>
                  ebind (convert_number c0) (\<lambda>v.
                    constraints_loop rest (converted_type, restricted_to @ [v])))
          else constraints_loop rest (converted_type, restricted_to)))"

definition sized_types :: "string list" where
  "sized_types = [''BIT STRING'', ''OCTET STRING'', ''IA5String'', ''VisibleString'',
     ''UTF8String'', ''NumericString'', ''PrintableString'']"

definition convert_type :: "pyval \<Rightarrow> exn + pyval" where
  "convert_type tokens =
     ebind (unpack2 tokens) (\<lambda>(converted_type, constraints).
     ebind (py_iter constraints) (\<lambda>items.
     ebind (constraints_loop items (converted_type, [])) (\<lambda>(converted_type, restricted_to).
     (let restricted_to =
            (if list_ex (\<lambda>x. eq_str x ''{'') restricted_to then [] else restricted_to) in
     ebind (if restricted_to \<noteq> []
            then py_setitem converted_type ''restricted-to'' (PList restricted_to)
            else Inr converted_type) (\<lambda>converted_type.
     ebind (py_getkey converted_type ''type'') (\<lambda>ty.
     ebind (if list_ex (eq_str ty) sized_types then
              ebind (convert_size constraints) (\<lambda>size.
                if py_bool size then py_setitem converted_type ''size'' size
                else Inr converted_type)
            else Inr converted_type) (\<lambda>converted_type.
     ebind (py_getkey converted_type ''type'') (\<lambda>ty.
     ebind (str_in ''&'' ty) (\<lambda>table.
       if table then
         ebind (as_list tokens) (\<lambda>l.
         ebind (convert_table (PList (drop 1 l))) (\<lambda>t.
           py_setitem converted_type ''table'' t))
       else Inr converted_type)))))))))"

text \<open>
  \<^verbatim>\<open>
  def convert_bit_string_value(tokens):
      value = tokens[0]
      if value == 'IdentifierList':
          value = value[:]
      elif isinstance(value, str):
          value = value
      else:
          value = None
      return value
  \<close>
  \<^verbatim>\<open>value[:]\<close> of a \<^verbatim>\<open>Tokens\<close> is a copy of its list.
\<close>

definition convert_bit_string_value :: "pyval \<Rightarrow> exn + pyval" where
  "convert_bit_string_value tokens =
     ebind (py_getitem tokens 0) (\<lambda>value.
       if eq_str value ''IdentifierList''
       then (case value of PTokens tag xs \<Rightarrow> Inr (PList xs) | _ \<Rightarrow> Inr value)
       else if is_str value then Inr value
       else Inr PNone)"

text \<open>
  \<^verbatim>\<open>
  def convert_value(tokens, type_=None):
      if type_ == 'INTEGER':
          value = int(tokens[0])
      elif type_ == 'OBJECT IDENTIFIER':
          value = []
          for value_tokens in tokens:
              if len(value_tokens) == 2:
                  value.append((value_tokens[0], int(value_tokens[1])))
              else:
                  value.append(convert_number(value_tokens[0]))
      elif type_ == 'BOOLEAN':
          value = (tokens[0] == 'TRUE')
      elif tokens[0] == 'BitStringValue':
          value = convert_bit_string_value(tokens[0])
      elif isinstance(tokens[0], str):
          value = convert_number(tokens[0])
      elif isinstance(tokens[0], int):
          value = tokens[0]
      else:
          value = None
      return value
  \<close>
\<close>

fun object_identifier_values :: "pyval list \<Rightarrow> pyval list \<Rightarrow> exn + pyval list" where
  "object_identifier_values [] value = Inr value"
| "object_identifier_values (value_tokens # rest) value =
     ebind (py_len value_tokens) (\<lambda>n.
       if n = 2 then
         ebind (py_getitem value_tokens 0) (\<lambda>a.
         ebind (py_getitem value_tokens 1) (\<lambda>b.
         ebind (py_int b) (\<lambda>i.
           object_identifier_values rest (value @ [PTuple [a, PInt i]]))))
       else
         ebind (py_getitem value_tokens 0) (\<lambda>a.
         ebind (convert_number a) (\<lambda>v.
           object_identifier_values rest (value @ [v]))))"

definition convert_value :: "pyval \<Rightarrow> pyval \<Rightarrow> exn + pyval" where
  "convert_value tokens ty =
     (if eq_str ty ''INTEGER'' then
        ebind (py_getitem tokens 0) (\<lambda>t0. ebind (py_int t0) (\<lambda>i. Inr (PInt i)))
      else if eq_str ty ''OBJECT IDENTIFIER'' then
        ebind (py_iter tokens) (\<lambda>items.
        ebind (object_identifier_values items []) (\<lambda>value. Inr (PList value)))
      else if eq_str ty ''BOOLEAN'' then
        ebind (py_getitem tokens 0) (\<lambda>t0. Inr (PBool (eq_str t0 ''TRUE'')))
      else
        ebind (py_getitem tokens 0) (\<lambda>t0.
          if eq_str t0 ''BitStringValue'' then convert_bit_string_value t0
          else if is_str t0 then convert_number t0
          else if is_int t0 then Inr t0
          else Inr PNone))"

text \<open>
  \<^verbatim>\<open>
  def convert_members(tokens):
      members = []
      for member_tokens in tokens:
          if member_tokens in [['...'], '...']:
              members.append(EXTENSION_MARKER)
              continue
          if member_tokens[0] == 'COMPONENTS OF':
              members.append({
                  'components-of': member_tokens[1][0]['type']
              })
              continue
          if member_tokens[0] == '[[':
              members.append(convert_members(member_tokens[1]))
              continue
          if len(member_tokens) == 2:
              member_tokens, qualifiers = member_tokens
              qualifiers = qualifiers.asList()
          else:
              qualifiers = []
          member = convert_type(member_tokens[2])
          member['name'] = member_tokens[0]
          if 'OPTIONAL' in qualifiers:
              member['optional'] = True
          if 'DEFAULT' in qualifiers:
              if len(qualifiers[1]) == 0:
                  value = []
              else:
                  value = convert_value(qualifiers[1], member['type'])
              member['default'] = value
          tag = convert_tag(member_tokens[1])
          if tag:
              member['tag'] = tag
          members.append(member)
      return members
  \<close>
  \<open>convert_member\<close> is the part of the loop body after the three \<^verbatim>\<open>continue\<close>s.
\<close>

definition is_ellipsis :: "pyval \<Rightarrow> bool" where
  "is_ellipsis member_tokens =
     (case member_tokens of PList [x] \<Rightarrow> eq_str x ''...'' | _ \<Rightarrow> eq_str member_tokens ''...'')"

definition convert_member :: "pyval \<Rightarrow> exn + pyval" where
  "convert_member member_tokens =
     ebind (py_len member_tokens) (\<lambda>n.
     ebind (if n = 2 then
              ebind (unpack2 member_tokens) (\<lambda>(member_tokens, qualifiers).
              ebind (as_list qualifiers) (\<lambda>qualifiers. Inr (member_tokens, qualifiers)))
            else Inr (member_tokens, [])) (\<lambda>(member_tokens, qualifiers).
     ebind (py_getitem member_tokens 2) (\<lambda>m2.
     ebind (convert_type m2) (\<lambda>member.
     ebind (py_getitem member_tokens 0) (\<lambda>name.
     ebind (py_setitem member ''name'' name) (\<lambda>member.
     ebind (if list_ex (\<lambda>q. eq_str q ''OPTIONAL'') qualifiers
            then py_setitem member ''optional'' (PBool True)
            else Inr member) (\<lambda>member.
     ebind (if list_ex (\<lambda>q. eq_str q ''DEFAULT'') qualifiers then
              ebind (tok qualifiers 1) (\<lambda>q1.
              ebind (py_len q1) (\<lambda>k.
              ebind (if k = 0 then Inr (PList [])
                     else ebind (py_getkey member ''type'') (convert_value q1)) (\<lambda>value.
                py_setitem member ''default'' value)))
            else Inr member) (\<lambda>member.
     ebind (py_getitem member_tokens 1) (\<lambda>m1.
     ebind (convert_tag m1) (\<lambda>tag.
       if py_bool tag then py_setitem member ''tag'' tag else Inr member))))))))))"

lemma ebind_cong [fundef_cong]:
  "m = m' \<Longrightarrow> (\<And>x. m' = Inr x \<Longrightarrow> f x = f' x) \<Longrightarrow> ebind m f = ebind m' f'"
  by (auto simp: ebind_def split: sum.splits)

lemma py_iter_size: "py_iter v = Inr xs \<Longrightarrow> sum_list (map size xs) \<le> size v"
proof -
  have a: "sum_list (map size ys) \<le> size_list size ys" for ys :: "pyval list"
    by (induction ys) auto
  have b: "sum_list (map (size \<circ> (\<lambda>c. PStr [c])) s) = 0" for s
    by (induction s) auto
  have c: "sum_list (map (size \<circ> (\<lambda>p. PStr (fst p))) d) = 0" for d :: "(string \<times> pyval) list"
    by (induction d) auto
  assume "py_iter v = Inr xs"
  then show ?thesis
    using a by (cases v) (auto simp: py_iter_def le_Suc_eq b c)
qed

lemma py_getitem_size:
  "py_getitem v 0 = Inr a \<Longrightarrow> eq_str a ''[['' \<Longrightarrow> py_getitem v 1 = Inr b \<Longrightarrow> size b < size v"
proof -
  have m: "y \<in> set ys \<Longrightarrow> size y < Suc (size_list size ys)" for ys :: "pyval list" and y
    by (induction ys) auto
  have a: "i < length ys \<Longrightarrow> size (ys ! i) < Suc (size_list size ys)" for ys :: "pyval list" and i
    using m[of "ys ! i" ys] by simp
  assume "py_getitem v 0 = Inr a" "eq_str a ''[[''" "py_getitem v 1 = Inr b"
  then show ?thesis
    using a by (cases v) (auto simp: eq_str_def split: if_splits)
qed

function convert_members :: "pyval \<Rightarrow> exn + pyval"
  and members_loop :: "pyval list \<Rightarrow> pyval list \<Rightarrow> exn + pyval list" where
  "convert_members tokens =
     ebind (py_iter tokens) (\<lambda>items.
     ebind (members_loop items []) (\<lambda>members. Inr (PList members)))"
| "members_loop [] members = Inr members"
| "members_loop (member_tokens # rest) members =
     (if is_ellipsis member_tokens then members_loop rest (members @ [EXTENSION_MARKER])
      else
        ebind (py_getitem member_tokens 0) (\<lambda>m0.
          if eq_str m0 ''COMPONENTS OF'' then
            ebind (py_getitem member_tokens 1) (\<lambda>m1.
            ebind (py_getitem m1 0) (\<lambda>m10.
            ebind (py_getkey m10 ''type'') (\<lambda>ty.
              members_loop rest (members @ [PDict [(''components-of'', ty)]]))))
          else if eq_str m0 ''[['' then
            ebind (py_getitem member_tokens 1) (\<lambda>m1.
            ebind (convert_members m1) (\<lambda>group.
              members_loop rest (members @ [group])))
          else
            ebind (convert_member member_tokens) (\<lambda>member.
              members_loop rest (members @ [member]))))"
  by pat_completeness auto

termination
proof (relation "inv_image (less_than <*lex*> less_than <*lex*> less_than)
    (\<lambda>x. case x of Inl tokens \<Rightarrow> (size tokens, 1::nat, 0::nat)
                 | Inr (items, members) \<Rightarrow> (sum_list (map size items), 0, length items))")
  show "wf (inv_image (less_than <*lex*> less_than <*lex*> less_than)
    (\<lambda>x. case x of Inl tokens \<Rightarrow> (size tokens, 1::nat, 0::nat)
                 | Inr (items, members) \<Rightarrow> (sum_list (map size items), 0, length items)))"
    by (intro wf_inv_image wf_lex_prod wf_less_than)
next
  fix tokens x
  assume "py_iter tokens = Inr x"
  from py_iter_size[OF this]
  show "(Inr (x, []), Inl tokens) \<in> inv_image (less_than <*lex*> less_than <*lex*> less_than)
    (\<lambda>x. case x of Inl tokens \<Rightarrow> (size tokens, 1::nat, 0::nat)
                 | Inr (items, members) \<Rightarrow> (sum_list (map size items), 0, length items))"
    by (auto simp: le_less)
qed (auto dest: py_getitem_size)

text \<open>
  \<^verbatim>\<open>
  def convert_sequence_type(_s, _l, tokens):
      return {
          'type': 'SEQUENCE',
          'members': convert_members(tokens[2])
      }
  \<close>
  and the same for \<^verbatim>\<open>convert_set_type\<close> (\<^verbatim>\<open>'SET'\<close>) and \<^verbatim>\<open>convert_choice_type\<close>
  (\<^verbatim>\<open>'CHOICE'\<close>).
\<close>

definition members_type :: "string \<Rightarrow> pyval list \<Rightarrow> exn + pyval" where
  "members_type name tokens =
     ebind (tok tokens 2) (\<lambda>t2.
     ebind (convert_members t2) (\<lambda>members.
       Inr (PDict [(''type'', PStr name), (''members'', members)])))"

definition convert_sequence_type :: converter where
  "convert_sequence_type s l tokens = members_type ''SEQUENCE'' tokens"

definition convert_set_type :: converter where
  "convert_set_type s l tokens = members_type ''SET'' tokens"

definition convert_choice_type :: converter where
  "convert_choice_type s l tokens = members_type ''CHOICE'' tokens"

text \<open>
  \<^verbatim>\<open>
  def convert_sequence_of_type(_s, _l, tokens):
      converted_type = {
          'type': 'SEQUENCE OF',
          'element': convert_type(tokens[4]),
      }
      if len(tokens[1]) > 0:
          converted_type['size'] = tokens[1][0]['size']
      tag = convert_tag(tokens[3])
      if tag:
          converted_type['element']['tag'] = tag
      return converted_type
  \<close>
  and the same for \<^verbatim>\<open>convert_set_of_type\<close> (\<^verbatim>\<open>'SET OF'\<close>).
\<close>

definition of_type :: "string \<Rightarrow> pyval list \<Rightarrow> exn + pyval" where
  "of_type name tokens =
     ebind (tok tokens 4) (\<lambda>t4.
     ebind (convert_type t4) (\<lambda>element.
     (let converted_type = [(''type'', PStr name), (''element'', element)] in
     ebind (tok tokens 1) (\<lambda>t1.
     ebind (py_len t1) (\<lambda>n.
     ebind (if n > 0 then
              ebind (py_getitem t1 0) (\<lambda>x.
              ebind (py_getkey x ''size'') (\<lambda>size.
                Inr (dict_set converted_type ''size'' size)))
            else Inr converted_type) (\<lambda>converted_type.
     ebind (tok tokens 3) (\<lambda>t3.
     ebind (convert_tag t3) (\<lambda>tag.
       if py_bool tag then
         ebind (py_setitem element ''tag'' tag) (\<lambda>element.
           Inr (PDict (dict_set converted_type ''element'' element)))
       else Inr (PDict converted_type)))))))))"

definition convert_sequence_of_type :: converter where
  "convert_sequence_of_type s l tokens = of_type ''SEQUENCE OF'' tokens"

definition convert_set_of_type :: converter where
  "convert_set_of_type s l tokens = of_type ''SET OF'' tokens"

text \<open>
  \<^verbatim>\<open>
  def convert_defined_type(_s, _l, tokens):
      return {
          'type': tokens[0]
      }
  \<close>
  and \<^verbatim>\<open>convert_keyword_type\<close> is the same function.
\<close>

definition convert_defined_type :: converter where
  "convert_defined_type s l tokens =
     ebind (tok tokens 0) (\<lambda>t0. Inr (PDict [(''type'', t0)]))"

definition convert_keyword_type :: converter where
  "convert_keyword_type s l tokens =
     ebind (tok tokens 0) (\<lambda>t0. Inr (PDict [(''type'', t0)]))"

text \<open>The actions that return a constant: \<^verbatim>\<open>return {'type': 'INTEGER'}\<close> and so on.\<close>

definition convert_integer_type :: converter where
  "convert_integer_type s l tokens = Inr (PDict [(''type'', PStr ''INTEGER'')])"

definition convert_real_type :: converter where
  "convert_real_type s l tokens = Inr (PDict [(''type'', PStr ''REAL'')])"

definition convert_object_identifier_type :: converter where
  "convert_object_identifier_type s l tokens = Inr (PDict [(''type'', PStr ''OBJECT IDENTIFIER'')])"

definition convert_octet_string_type :: converter where
  "convert_octet_string_type s l tokens = Inr (PDict [(''type'', PStr ''OCTET STRING'')])"

definition convert_null_type :: converter where
  "convert_null_type s l tokens = Inr (PDict [(''type'', PStr ''NULL'')])"

definition convert_boolean_type :: converter where
  "convert_boolean_type s l tokens = Inr (PDict [(''type'', PStr ''BOOLEAN'')])"

text \<open>
  \<^verbatim>\<open>
  def convert_enumerated_type(string, location, tokens):
      return {
          'type': 'ENUMERATED',
          'values': convert_enum_values(string, location, tokens[2])
      }
  \<close>
\<close>

definition convert_enumerated_type :: converter where
  "convert_enumerated_type string location tokens =
     ebind (tok tokens 2) (\<lambda>t2.
     ebind (convert_enum_values string location t2) (\<lambda>values.
       Inr (PDict [(''type'', PStr ''ENUMERATED''), (''values'', values)])))"

text \<open>
  \<^verbatim>\<open>
  def convert_bit_string_type(_s, _l, tokens):
      converted_type = {
          'type': 'BIT STRING'
      }
      named_bit_list = tokens.asList()[1]
      if named_bit_list:
          converted_type['named-bits'] = [
              tuple(named_bit) for named_bit in named_bit_list
          ]
      return converted_type
  \<close>
\<close>

fun tuples :: "pyval list \<Rightarrow> exn + pyval list" where
  "tuples [] = Inr []"
| "tuples (named_bit # rest) =
     ebind (py_iter named_bit) (\<lambda>items.
     ebind (tuples rest) (\<lambda>ts. Inr (PTuple items # ts)))"

definition convert_bit_string_type :: converter where
  "convert_bit_string_type s l tokens =
     ebind (tok (map asList tokens) 1) (\<lambda>named_bit_list.
       if py_bool named_bit_list then
         ebind (py_iter named_bit_list) (\<lambda>items.
         ebind (tuples items) (\<lambda>ts.
           Inr (PDict [(''type'', PStr ''BIT STRING''), (''named-bits'', PList ts)])))
       else Inr (PDict [(''type'', PStr ''BIT STRING'')]))"

text \<open>
  \<^verbatim>\<open>
  def convert_any_defined_by_type(_s, _l, tokens):
      return {
          'type': 'ANY DEFINED BY',
          'value': tokens[1],
          'choices': {}
      }
  \<close>
\<close>

definition convert_any_defined_by_type :: converter where
  "convert_any_defined_by_type s l tokens =
     ebind (tok tokens 1) (\<lambda>t1.
       Inr (PDict [(''type'', PStr ''ANY DEFINED BY''), (''value'', t1), (''choices'', PDict [])]))"

section \<open>Assignments\<close>

text \<open>
  \<^verbatim>\<open>
  def convert_parameterized_object_set_assignment(_s, _l, tokens):
      members = []
      try:
          for member_tokens in tokens[4].asList():
              if len(member_tokens[0]) == 1:
                  member = member_tokens[0][0]
              else:
                  member = {}
                  for item_tokens in member_tokens[0]:
                      name = item_tokens[0]
                      value = item_tokens[1][0]
                      if isinstance(value, Tokens):
                          value = value[0]
                      member[name] = convert_number(value)
              members.append(member)
      except IndexError:
          pass
      converted_type = {
          'class': tokens[1],
          'members': members
      }
      return ('parameterized-object-set-assignment',
              tokens[0],
              converted_type)
  \<close>
  An \<^verbatim>\<open>IndexError\<close> ends the loop and keeps the members appended so far, so the loop
  returns them together with the exception it stopped at, if any.
\<close>

fun object_set_member :: "pyval list \<Rightarrow> (string \<times> pyval) list \<Rightarrow> exn + pyval" where
  "object_set_member [] member = Inr (PDict member)"
| "object_set_member (item_tokens # rest) member =
     ebind (py_getitem item_tokens 0) (\<lambda>name.
     ebind (py_getitem item_tokens 1) (\<lambda>i1.
     ebind (py_getitem i1 0) (\<lambda>value.
     ebind (if is_tokens value then py_getitem value 0 else Inr value) (\<lambda>value.
     ebind (convert_number value) (\<lambda>v.
     ebind (key_of name) (\<lambda>k.
       object_set_member rest (dict_set member k v)))))))"

fun object_set_members :: "pyval list \<Rightarrow> pyval list \<Rightarrow> pyval list \<times> exn option" where
  "object_set_members [] members = (members, None)"
| "object_set_members (member_tokens # rest) members =
     (case ebind (py_getitem member_tokens 0) (\<lambda>m0.
           ebind (py_len m0) (\<lambda>n.
             if n = 1 then py_getitem m0 0
             else ebind (py_iter m0) (\<lambda>items. object_set_member items []))) of
        Inl e \<Rightarrow> (members, Some e)
      | Inr member \<Rightarrow> object_set_members rest (members @ [member]))"

definition convert_parameterized_object_set_assignment :: converter where
  "convert_parameterized_object_set_assignment s l tokens =
     ebind (case tok tokens 4 of
              Inl IndexError \<Rightarrow> Inr []
            | Inl e \<Rightarrow> Inl e
            | Inr t4 \<Rightarrow>
                ebind (as_list t4) (\<lambda>items.
                  case object_set_members items [] of
                    (members, None) \<Rightarrow> Inr members
                  | (members, Some IndexError) \<Rightarrow> Inr members
                  | (members, Some e) \<Rightarrow> Inl e)) (\<lambda>members.
     ebind (tok tokens 1) (\<lambda>cls.
     ebind (tok tokens 0) (\<lambda>name.
       Inr (PTuple [PStr ''parameterized-object-set-assignment'', name,
                    PDict [(''class'', cls), (''members'', PList members)]]))))"

text \<open>
  \<^verbatim>\<open>
  def convert_parameterized_object_assignment(_s, _l, tokens):
      type_ = tokens[1]
      converted_type = {
          'type': type_,
          'value': None
      }
      return ('parameterized-object-assignment',
              tokens[0],
              converted_type)
  \<close>
\<close>

definition convert_parameterized_object_assignment :: converter where
  "convert_parameterized_object_assignment s l tokens =
     ebind (tok tokens 1) (\<lambda>ty.
     ebind (tok tokens 0) (\<lambda>name.
       Inr (PTuple [PStr ''parameterized-object-assignment'', name,
                    PDict [(''type'', ty), (''value'', PNone)]])))"

text \<open>
  \<^verbatim>\<open>
  def convert_parameterized_object_class_assignment(_s, _l, tokens):
      members = []
      for member in tokens[3]:
          if member[0][1].islower():
              converted_member = member[1][0]
              if isinstance(converted_member, Tokens):
                  converted_member = converted_member[0]
          else:
              converted_member = {'type': 'OpenType'}
          converted_member['name'] = member[0]
          members.append(converted_member)
      converted_type = {
          'members': members
      }
      return ('parameterized-object-class-assignment',
              tokens[0],
              converted_type)
  \<close>
\<close>

fun class_members :: "pyval list \<Rightarrow> pyval list \<Rightarrow> exn + pyval list" where
  "class_members [] members = Inr members"
| "class_members (member # rest) members =
     ebind (py_getitem member 0) (\<lambda>m0.
     ebind (py_getitem m0 1) (\<lambda>ch.
     ebind (py_islower ch) (\<lambda>lower.
     ebind (if lower then
              ebind (py_getitem member 1) (\<lambda>m1.
              ebind (py_getitem m1 0) (\<lambda>converted_member.
                if is_tokens converted_member then py_getitem converted_member 0
                else Inr converted_member))
            else Inr (PDict [(''type'', PStr ''OpenType'')])) (\<lambda>converted_member.
     ebind (py_setitem converted_member ''name'' m0) (\<lambda>converted_member.
       class_members rest (members @ [converted_member]))))))"

definition convert_parameterized_object_class_assignment :: converter where
  "convert_parameterized_object_class_assignment s l tokens =
     ebind (tok tokens 3) (\<lambda>t3.
     ebind (py_iter t3) (\<lambda>items.
     ebind (class_members items []) (\<lambda>members.
     ebind (tok tokens 0) (\<lambda>name.
       Inr (PTuple [PStr ''parameterized-object-class-assignment'', name,
                    PDict [(''members'', PList members)]])))))"

text \<open>
  \<^verbatim>\<open>
  def convert_parameterized_type_assignment(_s, _l, tokens):
      tokens = tokens.asList()
      converted_type = convert_type(tokens[3])
      try:
          tag = convert_tag(tokens[2])
      except ValueError:
          tag = None
      if tag:
          converted_type['tag'] = tag
      return ('parameterized-type-assignment',
              tokens[0],
              converted_type)
  \<close>
\<close>

definition convert_parameterized_type_assignment :: converter where
  "convert_parameterized_type_assignment s l tokens =
     (let tokens = map asList tokens in
      ebind (tok tokens 3) (\<lambda>t3.
      ebind (convert_type t3) (\<lambda>converted_type.
      ebind (case ebind (tok tokens 2) convert_tag of
               Inl ValueError \<Rightarrow> Inr PNone
             | r \<Rightarrow> r) (\<lambda>tag.
      ebind (if py_bool tag then py_setitem converted_type ''tag'' tag
             else Inr converted_type) (\<lambda>converted_type.
      ebind (tok tokens 0) (\<lambda>name.
        Inr (PTuple [PStr ''parameterized-type-assignment'', name, converted_type])))))))"

text \<open>
  \<^verbatim>\<open>
  def convert_parameterized_value_assignment(_s, _l, tokens):
      type_ = tokens[1][0][0]
      if isinstance(type_, Tokens):
          type_ = type_[0]
      elif isinstance(type_, dict):
          type_ = type_['type']
      converted_type = {
          'type': type_,
          'value': convert_value(tokens[2], type_)
      }
      return ('parameterized-value-assignment',
              tokens[0],
              converted_type)
  \<close>
\<close>

definition convert_parameterized_value_assignment :: converter where
  "convert_parameterized_value_assignment s l tokens =
     ebind (tok tokens 1) (\<lambda>t1.
     ebind (py_getitem t1 0) (\<lambda>t10.
     ebind (py_getitem t10 0) (\<lambda>ty.
     ebind (if is_tokens ty then py_getitem ty 0
            else if is_dict ty then py_getkey ty ''type''
            else Inr ty) (\<lambda>ty.
     ebind (tok tokens 2) (\<lambda>t2.
     ebind (convert_value t2 ty) (\<lambda>v.
     ebind (tok tokens 0) (\<lambda>name.
       Inr (PTuple [PStr ''parameterized-value-assignment'', name,
                    PDict [(''type'', ty), (''value'', v)]]))))))))"

section \<open>Module\<close>

text \<open>
  A call of \<^verbatim>\<open>LOGGER\<close>: the level, the format and its argument.
\<close>

datatype level = DEBUG | WARNING

type_synonym log_record = "level \<times> string \<times> pyval"

text \<open>
  \<^verbatim>\<open>
  def convert_imports(_s, _l, tokens):
      tokens = tokens.asList()
      imports = {}
      if tokens:
          for from_tokens in tokens:
              from_name = from_tokens[2]
              LOGGER.debug("Converting imports from '%s'.", from_name)
              imports[from_name] = from_tokens[0]
      return {'imports': imports}
  \<close>
  The records logged so far are kept when an exception ends the loop.
\<close>

definition converting_imports :: string where
  "converting_imports = ''Converting imports from '' @ [quote] @ ''%s'' @ [quote] @ ''.''"

fun imports_loop :: "pyval list \<Rightarrow> (string \<times> pyval) list \<Rightarrow> log_record list
    \<Rightarrow> log_record list \<times> (exn + (string \<times> pyval) list)" where
  "imports_loop [] imports log = (log, Inr imports)"
| "imports_loop (from_tokens # rest) imports log =
     (case py_getitem from_tokens 2 of
        Inl e \<Rightarrow> (log, Inl e)
      | Inr from_name \<Rightarrow>
          (let log = log @ [(DEBUG, converting_imports, from_name)] in
           case ebind (py_getitem from_tokens 0) (\<lambda>v.
                ebind (key_of from_name) (\<lambda>k. Inr (dict_set imports k v))) of
             Inl e \<Rightarrow> (log, Inl e)
           | Inr imports \<Rightarrow> imports_loop rest imports log))"

definition convert_imports :: "string \<Rightarrow> nat \<Rightarrow> pyval list \<Rightarrow> log_record list \<times> (exn + pyval)" where
  "convert_imports s l tokens =
     (case imports_loop (map asList tokens) [] [] of
        (log, Inl e) \<Rightarrow> (log, Inl e)
      | (log, Inr imports) \<Rightarrow> (log, Inr (PDict [(''imports'', PDict imports)])))"

text \<open>
  \<^verbatim>\<open>
  def convert_assignment_list(_s, _l, tokens):
      types = {}
      values = {}
      object_classes = {}
      object_sets = {}
      for kind, name, value in tokens:
          if kind == 'parameterized-object-set-assignment':
              if name in object_sets:
                  LOGGER.warning("Object set '%s' already defined.", name)
              object_sets[name] = value
          elif kind == 'parameterized-object-assignment':
              if name in values:
                  LOGGER.warning("Object '%s' already defined.", name)
              values[name] = value
          elif kind == 'parameterized-object-class-assignment':
              if name in object_classes:
                  LOGGER.warning("Object class '%s' already defined.", name)
              object_classes[name] = value
          elif kind == 'parameterized-type-assignment':
              if name in types:
                  LOGGER.warning("Type '%s' already defined.", name)
              types[name] = value
          elif kind == 'parameterized-value-assignment':
              if name in values:
                  LOGGER.warning("Value '%s' already defined.", name)
              values[name] = value
          else:
              raise InternalParserError(
                  'Unrecognized assignment kind {}.'.format(kind))
      return {
          'types': types,
          'values': values,
          'object-classes': object_classes,
          'object-sets': object_sets
      }
  \<close>
  \<open>bind_name d what name value\<close> is one branch: the warning if the name is already a key of
  the \<^verbatim>\<open>dict\<close>, and the assignment.
\<close>

definition already_defined :: "string \<Rightarrow> string" where
  "already_defined what = what @ '' '' @ [quote] @ ''%s'' @ [quote] @ '' already defined.''"

definition bind_name :: "(string \<times> pyval) list \<Rightarrow> string \<Rightarrow> string \<Rightarrow> pyval
    \<Rightarrow> log_record list \<times> (string \<times> pyval) list" where
  "bind_name d what name value =
     ((if map_of d name \<noteq> None then [(WARNING, already_defined what, PStr name)] else []),
      dict_set d name value)"

record assignments =
  types :: "(string \<times> pyval) list"
  values_dict :: "(string \<times> pyval) list"
  object_classes :: "(string \<times> pyval) list"
  object_sets :: "(string \<times> pyval) list"

fun assignment_loop :: "pyval list \<Rightarrow> assignments \<Rightarrow> log_record list
    \<Rightarrow> log_record list \<times> (exn + assignments)" where
  "assignment_loop [] a log = (log, Inr a)"
| "assignment_loop (token # rest) a log =
     (case unpack3 token of
        Inl e \<Rightarrow> (log, Inl e)
      | Inr (kind, name, value) \<Rightarrow>
          if eq_str kind ''parameterized-object-set-assignment'' then
            (case key_of name of
               Inl e \<Rightarrow> (log, Inl e)
             | Inr k \<Rightarrow>
                 (case bind_name (object_sets a) ''Object set'' k value of
                    (w, d) \<Rightarrow> assignment_loop rest (a\<lparr>object_sets := d\<rparr>) (log @ w)))
          else if eq_str kind ''parameterized-object-assignment'' then
            (case key_of name of
               Inl e \<Rightarrow> (log, Inl e)
             | Inr k \<Rightarrow>
                 (case bind_name (values_dict a) ''Object'' k value of
                    (w, d) \<Rightarrow> assignment_loop rest (a\<lparr>values_dict := d\<rparr>) (log @ w)))
          else if eq_str kind ''parameterized-object-class-assignment'' then
            (case key_of name of
               Inl e \<Rightarrow> (log, Inl e)
             | Inr k \<Rightarrow>
                 (case bind_name (object_classes a) ''Object class'' k value of
                    (w, d) \<Rightarrow> assignment_loop rest (a\<lparr>object_classes := d\<rparr>) (log @ w)))
          else if eq_str kind ''parameterized-type-assignment'' then
            (case key_of name of
               Inl e \<Rightarrow> (log, Inl e)
             | Inr k \<Rightarrow>
                 (case bind_name (types a) ''Type'' k value of
                    (w, d) \<Rightarrow> assignment_loop rest (a\<lparr>types := d\<rparr>) (log @ w)))
          else if eq_str kind ''parameterized-value-assignment'' then
            (case key_of name of
               Inl e \<Rightarrow> (log, Inl e)
             | Inr k \<Rightarrow>
                 (case bind_name (values_dict a) ''Value'' k value of
                    (w, d) \<Rightarrow> assignment_loop rest (a\<lparr>values_dict := d\<rparr>) (log @ w)))
          else (log, Inl (InternalParserError kind)))"

definition convert_assignment_list :: "string \<Rightarrow> nat \<Rightarrow> pyval list \<Rightarrow> log_record list \<times> (exn + pyval)" where
  "convert_assignment_list s l tokens =
     (case assignment_loop tokens
             \<lparr>types = [], values_dict = [], object_classes = [], object_sets = []\<rparr> [] of
        (log, Inl e) \<Rightarrow> (log, Inl e)
      | (log, Inr a) \<Rightarrow>
          (log, Inr (PDict [(''types'', PDict (types a)),
                            (''values'', PDict (values_dict a)),
                            (''object-classes'', PDict (object_classes a)),
                            (''object-sets'', PDict (object_sets a))])))"

text \<open>
  \<^verbatim>\<open>
  def convert_module_body(_s, _l, tokens):
      return merge_dicts(tokens)
  def convert_specification(_s, _l, tokens):
      return merge_dicts(tokens)
  \<close>
\<close>

definition convert_module_body :: converter where
  "convert_module_body s l tokens = merge_dicts tokens"

definition convert_specification :: converter where
  "convert_specification s l tokens = merge_dicts tokens"

text \<open>
  \<^verbatim>\<open>
  def convert_module_definition(_s, _l, tokens):
      tokens = tokens.asList()
      module = tokens[1][0]
      module['extensibility-implied'] = (tokens[0][3] != [])
      if tokens[0][2]:
          module['tags'] = tokens[0][2][0]
      return {tokens[0][0]: module}
  \<close>
\<close>

definition convert_module_definition :: converter where
  "convert_module_definition s l tokens =
     (let tokens = map asList tokens in
      ebind (tok tokens 1) (\<lambda>t1.
      ebind (py_getitem t1 0) (\<lambda>module.
      ebind (tok tokens 0) (\<lambda>t0.
      ebind (py_getitem t0 3) (\<lambda>t03.
      ebind (py_setitem module ''extensibility-implied'' (PBool (t03 \<noteq> PList []))) (\<lambda>module.
      ebind (py_getitem t0 2) (\<lambda>t02.
      ebind (if py_bool t02 then
               ebind (py_getitem t02 0) (\<lambda>tags. py_setitem module ''tags'' tags)
             else Inr module) (\<lambda>module.
      ebind (py_getitem t0 0) (\<lambda>name.
      ebind (key_of name) (\<lambda>k. Inr (PDict [(k, module)])))))))))))"

end
